theory Spec2Isabelle
  imports Complex_Main "HOL-Library.Word"
begin

unbundle bit_operations_syntax

section \<open>JavaScript values\<close>

text \<open>
  The values that documents, filters and index keys carry. The model covers \<open>undefined\<close>,
  integral numbers, strings of code units below 256 and plain objects; an object carries the
  address it was allocated at, because \<open>===\<close> compares objects by reference. \<open>null\<close>,
  booleans, fractional numbers, \<open>NaN\<close> and arrays are outside the model.
\<close>

datatype jsval =
    JUndefined
  | JNum int
  | JStr string
  | JObj nat "(string \<times> jsval) list"

datatype error =
    TypeError
  | Error string
  | NoReturn

text \<open>\<open>NoReturn\<close> stands for a call that does not come back (a loop that never ends).\<close>

fun js_truthy :: "jsval \<Rightarrow> bool" where
  "js_truthy JUndefined = False"
| "js_truthy (JNum n) = (n \<noteq> 0)"
| "js_truthy (JStr s) = (s \<noteq> [])"
| "js_truthy (JObj a fs) = True"

text \<open>\<open>a === b\<close>.\<close>

fun js_strict_eq :: "jsval \<Rightarrow> jsval \<Rightarrow> bool" where
  "js_strict_eq JUndefined JUndefined = True"
| "js_strict_eq (JNum a) (JNum b) = (a = b)"
| "js_strict_eq (JStr a) (JStr b) = (a = b)"
| "js_strict_eq (JObj a fa) (JObj b fb) = (a = b)"
| "js_strict_eq x y = False"

text \<open>Strings compare by code units, a proper prefix first.\<close>

fun str_less :: "string \<Rightarrow> string \<Rightarrow> bool" where
  "str_less [] [] = False"
| "str_less [] (y # ys) = True"
| "str_less (x # xs) [] = False"
| "str_less (x # xs) (y # ys) =
     (if (of_char x :: nat) < of_char y then True
      else if (of_char y :: nat) < of_char x then False
      else str_less xs ys)"

text \<open>
  The relational comparison of the language (\<open>IsLessThan\<close>): \<open>Some True\<close>,
  \<open>Some False\<close>, or \<open>None\<close> when an operand converts to \<open>NaN\<close>. An object becomes
  the string \<open>[object Object]\<close>. A string against a number is converted by the runtime's
  \<open>StringToNumber\<close>; the model takes the result to be \<open>NaN\<close>, which is what it is for
  every string that is not numeric text, and numeric text compared with numbers is outside
  the model.
\<close>

fun to_primitive :: "jsval \<Rightarrow> jsval" where
  "to_primitive (JObj a fs) = JStr ''[object Object]''"
| "to_primitive v = v"

fun prim_less :: "jsval \<Rightarrow> jsval \<Rightarrow> bool option" where
  "prim_less (JNum a) (JNum b) = Some (a < b)"
| "prim_less (JStr a) (JStr b) = Some (str_less a b)"
| "prim_less x y = None"

definition is_less_than :: "jsval \<Rightarrow> jsval \<Rightarrow> bool option" where
  "is_less_than a b = prim_less (to_primitive a) (to_primitive b)"

definition js_lt :: "jsval \<Rightarrow> jsval \<Rightarrow> bool" where
  "js_lt a b = (is_less_than a b = Some True)"

definition js_gt :: "jsval \<Rightarrow> jsval \<Rightarrow> bool" where
  "js_gt a b = (is_less_than b a = Some True)"

definition js_le :: "jsval \<Rightarrow> jsval \<Rightarrow> bool" where
  "js_le a b = (is_less_than b a = Some False)"

definition js_ge :: "jsval \<Rightarrow> jsval \<Rightarrow> bool" where
  "js_ge a b = (is_less_than a b = Some False)"

text \<open>\<open>String(key)\<close>.\<close>

fun digits :: "nat \<Rightarrow> string" where
  "digits n =
     (if n < 10 then [''0123456789'' ! n]
      else digits (n div 10) @ [''0123456789'' ! (n mod 10)])"

declare digits.simps [simp del]

fun js_String :: "jsval \<Rightarrow> string" where
  "js_String JUndefined = ''undefined''"
| "js_String (JNum n) = (if n < 0 then CHR ''-'' # digits (nat (- n)) else digits (nat n))"
| "js_String (JStr s) = s"
| "js_String (JObj a fs) = ''[object Object]''"

text \<open>Property access \<open>obj[name]\<close> on the fields of an object: \<open>undefined\<close> when absent.\<close>

fun js_get :: "(string \<times> jsval) list \<Rightarrow> string \<Rightarrow> jsval" where
  "js_get [] name = JUndefined"
| "js_get ((k, v) # fs) name = (if k = name then v else js_get fs name)"

text \<open>Assignment \<open>obj[name] = v\<close>: an own property keeps its place, a new one goes last.\<close>

fun js_set :: "(string \<times> jsval) list \<Rightarrow> string \<Rightarrow> jsval \<Rightarrow> (string \<times> jsval) list" where
  "js_set [] name v = [(name, v)]"
| "js_set ((k, w) # fs) name v = (if k = name then (k, v) # fs else (k, w) # js_set fs name v)"

text \<open>\<open>name in obj\<close> / \<open>obj.hasOwnProperty(name)\<close>.\<close>

definition js_has :: "(string \<times> jsval) list \<Rightarrow> string \<Rightarrow> bool" where
  "js_has fs name = (name \<in> set (map fst fs))"

text \<open>\<open>xs.splice(pos, 0, x)\<close> and \<open>xs.splice(pos, 1)\<close> for \<open>0 \<le> pos\<close>.\<close>

definition splice_in :: "nat \<Rightarrow> 'a \<Rightarrow> 'a list \<Rightarrow> 'a list" where
  "splice_in pos x xs = take pos xs @ x # drop pos xs"

definition splice_out :: "nat \<Rightarrow> 'a list \<Rightarrow> 'a list" where
  "splice_out pos xs = take pos xs @ drop (Suc pos) xs"

fun findIndex :: "('a \<Rightarrow> bool) \<Rightarrow> 'a list \<Rightarrow> nat option" where
  "findIndex P [] = None"
| "findIndex P (x # xs) =
     (if P x then Some 0 else (case findIndex P xs of None \<Rightarrow> None | Some i \<Rightarrow> Some (Suc i)))"

section \<open>Hash index (Robin Hood open addressing)\<close>

text \<open>
  A bucket is its \<open>entries\<close> array. The per-bucket locks are not modelled: every operation
  runs to completion before the next one starts. Of the statistics only
  \<open>maxProbeLength\<close> is kept, the one that lookups and deletes read.
\<close>

record entry =
  e_key :: jsval
  e_value :: jsval
  e_hash :: "32 word"
  e_psl :: nat

record HashIndex =
  capacity :: nat
  hsize :: nat
  buckets :: "entry list list"
  resizeLock :: bool
  maxProbeLength :: nat

definition INITIAL_CAPACITY :: int where
  "INITIAL_CAPACITY = 16384"

definition LOAD_FACTOR :: real where
  "LOAD_FACTOR = 0.75"

definition fnv_step :: "32 word \<Rightarrow> char \<Rightarrow> 32 word" where
  "fnv_step h c = (h XOR of_char c) * 16777619"

text \<open>Four code units per round, then the rest, as the unrolled loop does.\<close>

fun hash_chars :: "32 word \<Rightarrow> string \<Rightarrow> 32 word" where
  "hash_chars h (a # b # c # d # rest) =
     hash_chars (fnv_step (fnv_step (fnv_step (fnv_step h a) b) c) d) rest"
| "hash_chars h rest = foldl fnv_step h rest"

text \<open>
  \<open>_hash\<close>: FNV-1a over \<open>String(key)\<close>. The process-wide cache of hashes stores what this
  function computes, under the key itself, so it does not change any result.
\<close>

definition hash :: "jsval \<Rightarrow> 32 word" where
  "hash key = hash_chars 2166136261 (js_String key)"

definition getBucketIndex :: "HashIndex \<Rightarrow> 32 word \<Rightarrow> nat" where
  "getBucketIndex h hsh = unat hsh AND (capacity h - 1)"

definition nextPowerOfTwo :: "int \<Rightarrow> int" where
  "nextPowerOfTwo n0 =
    (let n = n0 - 1;
         n = n OR drop_bit 1 n;
         n = n OR drop_bit 2 n;
         n = n OR drop_bit 4 n;
         n = n OR drop_bit 8 n;
         n = n OR drop_bit 16 n
     in n + 1)"

definition new_HashIndex :: "int \<Rightarrow> HashIndex" where
  "new_HashIndex initialCapacity =
    (let c = nat (nextPowerOfTwo initialCapacity)
     in \<lparr>capacity = c, hsize = 0, buckets = replicate c [], resizeLock = False,
         maxProbeLength = 0\<rparr>)"

definition next_index :: "HashIndex \<Rightarrow> nat \<Rightarrow> nat" where
  "next_index h i = (i + 1) AND (capacity h - 1)"

text \<open>
  The probing loop of \<open>insert\<close>. \<open>key\<close> and \<open>val\<close> stay the arguments of the call while
  \<open>ent\<close> is the entry being carried, which a swap replaces by the displaced one. \<open>None\<close>:
  the loop does not come back (it never ends, or it reads a bucket outside the table).
\<close>

partial_function (option) insert_loop ::
  "HashIndex \<Rightarrow> jsval \<Rightarrow> jsval \<Rightarrow> entry \<Rightarrow> nat \<Rightarrow> nat \<Rightarrow> HashIndex option" where
  "insert_loop h key val ent bucketIndex psl =
    (if length (buckets h) \<le> bucketIndex then None
     else if buckets h ! bucketIndex = [] then
       Some (h\<lparr>buckets := (buckets h)[bucketIndex := [ent\<lparr>e_psl := psl\<rparr>]],
               hsize := hsize h + 1,
               maxProbeLength := max (maxProbeLength h) psl\<rparr>)
     else
       (case findIndex (\<lambda>e. js_strict_eq (e_key e) key) (buckets h ! bucketIndex) of
          Some i \<Rightarrow>
            Some (h\<lparr>buckets := (buckets h)[bucketIndex :=
                      (buckets h ! bucketIndex)[i := (buckets h ! bucketIndex ! i)\<lparr>e_value := val\<rparr>]]\<rparr>)
        | None \<Rightarrow>
            if psl > e_psl (hd (buckets h ! bucketIndex))
            then insert_loop
                   (h\<lparr>buckets := (buckets h)[bucketIndex := (buckets h ! bucketIndex)[0 := ent]]\<rparr>)
                   key val (hd (buckets h ! bucketIndex))
                   (next_index h bucketIndex) (e_psl (hd (buckets h ! bucketIndex)) + 1)
            else insert_loop h key val ent (next_index h bucketIndex) (psl + 1)))"

definition insert_probe :: "HashIndex \<Rightarrow> jsval \<Rightarrow> jsval \<Rightarrow> HashIndex option" where
  "insert_probe h key val =
     insert_loop h key val \<lparr>e_key = key, e_value = val, e_hash = hash key, e_psl = 0\<rparr>
       (getBucketIndex h (hash key)) 0"

text \<open>
  \<open>this.size / this.capacity > LOAD_FACTOR\<close>. The quotient of two integers by a power of two
  is exact in floating point; a division by zero gives \<open>Infinity\<close>, or \<open>NaN\<close> for \<open>0 / 0\<close>.
\<close>

definition needs_resize :: "HashIndex \<Rightarrow> bool" where
  "needs_resize h =
     (if capacity h = 0 then hsize h \<noteq> 0
      else real (hsize h) / real (capacity h) > LOAD_FACTOR)"

fun insert_all :: "HashIndex \<Rightarrow> entry list \<Rightarrow> HashIndex option" where
  "insert_all h [] = Some h"
| "insert_all h (e # es) =
     (case insert_probe h (e_key e) (e_value e) of None \<Rightarrow> None | Some h' \<Rightarrow> insert_all h' es)"

text \<open>
  \<open>_resize\<close>. The re-insertions go through \<open>insert\<close> while the resize lock is held, so the
  \<open>_resize\<close> they may call returns at once and each of them is the probing loop alone.
\<close>

definition resize :: "HashIndex \<Rightarrow> HashIndex option" where
  "resize h =
    (if resizeLock h then Some h
     else
       (case insert_all
               (h\<lparr>resizeLock := True, capacity := capacity h * 2,
                   buckets := replicate (capacity h * 2) [], hsize := 0, maxProbeLength := 0\<rparr>)
               (concat (buckets h)) of
          None \<Rightarrow> None
        | Some h' \<Rightarrow> Some (h'\<lparr>resizeLock := False\<rparr>)))"

definition insert :: "HashIndex \<Rightarrow> jsval \<Rightarrow> jsval \<Rightarrow> HashIndex option" where
  "insert h key val =
    (if needs_resize h
     then (case resize h of None \<Rightarrow> None | Some h' \<Rightarrow> insert_probe h' key val)
     else insert_probe h key val)"

text \<open>The scan of one bucket in \<open>get\<close>.\<close>

datatype 'a scan = Found 'a | Stop | Next

fun get_scan :: "entry list \<Rightarrow> 32 word \<Rightarrow> jsval \<Rightarrow> nat \<Rightarrow> jsval scan" where
  "get_scan [] hsh key psl = Next"
| "get_scan (e # es) hsh key psl =
     (if e_hash e = hsh \<and> js_strict_eq (e_key e) key then Found (e_value e)
      else if psl > e_psl e then Stop
      else get_scan es hsh key psl)"

text \<open>
  \<open>get\<close> returns the stored value or \<open>null\<close> (\<open>Inr None\<close>); a bucket read outside the table
  throws.
\<close>

function get_loop :: "HashIndex \<Rightarrow> 32 word \<Rightarrow> jsval \<Rightarrow> nat \<Rightarrow> nat \<Rightarrow> error + jsval option" where
  "get_loop h hsh key bucketIndex psl =
    (if psl \<le> maxProbeLength h then
       (if length (buckets h) \<le> bucketIndex then Inl TypeError
        else (case get_scan (buckets h ! bucketIndex) hsh key psl of
                Found v \<Rightarrow> Inr (Some v)
              | Stop \<Rightarrow> Inr None
              | Next \<Rightarrow> get_loop h hsh key (next_index h bucketIndex) (psl + 1)))
     else Inr None)"
  by pat_completeness auto
termination
  by (relation "measure (\<lambda>(h, hsh, key, bucketIndex, psl). maxProbeLength h + 1 - psl)") auto

declare get_loop.simps [simp del]

definition get :: "HashIndex \<Rightarrow> jsval \<Rightarrow> error + jsval option" where
  "get h key = get_loop h (hash key) key (getBucketIndex h (hash key)) 0"

text \<open>\<open>_backwardShift\<close>, with \<open>currentIndex\<close> as the loop variable.\<close>

partial_function (option) backwardShift_loop :: "HashIndex \<Rightarrow> nat \<Rightarrow> HashIndex option" where
  "backwardShift_loop h currentIndex =
    (if length (buckets h) \<le> currentIndex then None
     else if buckets h ! currentIndex = [] \<or> e_psl (hd (buckets h ! currentIndex)) = 0 then Some h
     else if length (buckets h) \<le> (currentIndex - 1 + capacity h) AND (capacity h - 1) then None
     else backwardShift_loop
            (h\<lparr>buckets :=
                 ((buckets h)
                    [(currentIndex - 1 + capacity h) AND (capacity h - 1) :=
                       buckets h ! ((currentIndex - 1 + capacity h) AND (capacity h - 1)) @
                         [(hd (buckets h ! currentIndex))
                            \<lparr>e_psl := e_psl (hd (buckets h ! currentIndex)) - 1\<rparr>]])
                    [currentIndex := tl (buckets h ! currentIndex)]\<rparr>)
            (next_index h currentIndex))"

definition backwardShift :: "HashIndex \<Rightarrow> nat \<Rightarrow> HashIndex option" where
  "backwardShift h startIndex = backwardShift_loop h (next_index h startIndex)"

text \<open>The scan of one bucket in \<open>delete\<close>: the position of the key, or the early exit.\<close>

fun delete_scan :: "entry list \<Rightarrow> jsval \<Rightarrow> nat \<Rightarrow> nat \<Rightarrow> nat scan" where
  "delete_scan [] key psl i = Next"
| "delete_scan (e # es) key psl i =
     (if js_strict_eq (e_key e) key then Found i
      else if psl > e_psl e then Stop
      else delete_scan es key psl (Suc i))"

text \<open>\<open>delete\<close> returns the table and whether the key was removed.\<close>

function delete_loop :: "HashIndex \<Rightarrow> jsval \<Rightarrow> nat \<Rightarrow> nat \<Rightarrow> (HashIndex \<times> bool) option" where
  "delete_loop h key bucketIndex psl =
    (if psl \<le> maxProbeLength h then
       (if length (buckets h) \<le> bucketIndex then None
        else (case delete_scan (buckets h ! bucketIndex) key psl 0 of
                Found i \<Rightarrow>
                  (case backwardShift
                          (h\<lparr>buckets := (buckets h)[bucketIndex := splice_out i (buckets h ! bucketIndex)],
                              hsize := hsize h - 1\<rparr>)
                          bucketIndex of
                     None \<Rightarrow> None
                   | Some h' \<Rightarrow> Some (h', True))
              | Stop \<Rightarrow> Some (h, False)
              | Next \<Rightarrow> delete_loop h key (next_index h bucketIndex) (psl + 1)))
     else Some (h, False))"
  by pat_completeness auto
termination
  by (relation "measure (\<lambda>(h, key, bucketIndex, psl). maxProbeLength h + 1 - psl)") auto

declare delete_loop.simps [simp del]

definition delete :: "HashIndex \<Rightarrow> jsval \<Rightarrow> (HashIndex \<times> bool) option" where
  "delete h key = delete_loop h key (getBucketIndex h (hash key)) 0"

text \<open>\<open>entries()\<close>: the (key, value) pairs, bucket by bucket.\<close>

definition entries :: "HashIndex \<Rightarrow> (jsval \<times> jsval) list" where
  "entries h = map (\<lambda>e. (e_key e, e_value e)) (concat (buckets h))"

section \<open>B+ tree\<close>

text \<open>
  Nodes live in a store, a list indexed by address, because leaves are linked by \<open>next\<close> and
  nodes point to their parent; a new node takes the next free address. Node locks and the
  structure lock are not modelled. In every leaf that the operations build, \<open>values\<close> is as
  long as \<open>keys\<close>.
\<close>

record node =
  n_isLeaf :: bool
  n_order :: nat
  n_keys :: "jsval list"
  n_values :: "jsval list"
  n_children :: "nat list"
  n_next :: "nat option"
  n_parent :: "nat option"

record BPlusTree =
  t_order :: nat
  t_root :: nat
  t_firstLeaf :: nat
  t_size :: nat
  t_height :: nat
  t_nodes :: "node list"

definition DEFAULT_ORDER :: nat where
  "DEFAULT_ORDER = 128"

definition new_node :: "bool \<Rightarrow> nat \<Rightarrow> node" where
  "new_node leaf ord =
     \<lparr>n_isLeaf = leaf, n_order = ord, n_keys = [], n_values = [], n_children = [],
      n_next = None, n_parent = None\<rparr>"

definition new_BPlusTree :: "nat \<Rightarrow> BPlusTree" where
  "new_BPlusTree ord =
     \<lparr>t_order = ord, t_root = 0, t_firstLeaf = 0, t_size = 0, t_height = 1,
      t_nodes = [new_node True ord]\<rparr>"

function findKeyPosition_loop :: "jsval list \<Rightarrow> jsval \<Rightarrow> nat \<Rightarrow> nat \<Rightarrow> nat" where
  "findKeyPosition_loop ks key left right =
    (if left < right then
       (if js_lt (ks ! ((left + right) div 2)) key
        then findKeyPosition_loop ks key ((left + right) div 2 + 1) right
        else findKeyPosition_loop ks key left ((left + right) div 2))
     else left)"
  by pat_completeness auto
termination
  by (relation "measure (\<lambda>(ks, key, left, right). right - left)") auto

declare findKeyPosition_loop.simps [simp del]

definition findKeyPosition :: "node \<Rightarrow> jsval \<Rightarrow> nat" where
  "findKeyPosition nd key = findKeyPosition_loop (n_keys nd) key 0 (length (n_keys nd))"

definition isFull :: "node \<Rightarrow> bool" where
  "isFull nd = (int (length (n_keys nd)) \<ge> int (n_order nd) - 1)"

definition minKeys :: "nat \<Rightarrow> int" where
  "minKeys ord = (int ord + 1) div 2 - 1"

definition isUnderfull :: "node \<Rightarrow> bool" where
  "isUnderfull nd = (int (length (n_keys nd)) < minKeys (n_order nd))"

text \<open>
  \<open>_findLeaf\<close>. \<open>None\<close>: the descent does not come back (it never ends, or it reads a
  child that is not there).
\<close>

partial_function (option) findLeaf_loop :: "BPlusTree \<Rightarrow> jsval \<Rightarrow> nat \<Rightarrow> nat option" where
  "findLeaf_loop t key nd =
    (if length (t_nodes t) \<le> nd then None
     else if n_isLeaf (t_nodes t ! nd) then Some nd
     else if length (n_children (t_nodes t ! nd)) \<le> findKeyPosition (t_nodes t ! nd) key then None
     else findLeaf_loop t key (n_children (t_nodes t ! nd) ! findKeyPosition (t_nodes t ! nd) key))"

definition findLeaf :: "BPlusTree \<Rightarrow> jsval \<Rightarrow> nat option" where
  "findLeaf t key = findLeaf_loop t key (t_root t)"

definition set_node :: "BPlusTree \<Rightarrow> nat \<Rightarrow> node \<Rightarrow> BPlusTree" where
  "set_node t a nd = t\<lparr>t_nodes := (t_nodes t)[a := nd]\<rparr>"

definition first_or_undefined :: "jsval list \<Rightarrow> jsval" where
  "first_or_undefined xs = (case xs of [] \<Rightarrow> JUndefined | x # _ \<Rightarrow> x)"

text \<open>
  The part of \<open>_splitInternal\<close> before the promoted key goes up: the new node takes the keys
  and children after the middle, and becomes the parent of the children it took. The result
  is the tree, the promoted key and the address of the new node.
\<close>

definition splitInternal_nodes :: "BPlusTree \<Rightarrow> nat \<Rightarrow> BPlusTree \<times> jsval \<times> nat" where
  "splitInternal_nodes t a =
    (let nd = t_nodes t ! a;
         mid = length (n_keys nd) div 2;
         promoteKey = first_or_undefined (drop mid (n_keys nd));
         newAddr = length (t_nodes t);
         newNode = (new_node False (t_order t))
                     \<lparr>n_keys := drop (mid + 1) (n_keys nd),
                      n_children := drop (mid + 1) (n_children nd)\<rparr>;
         nodes1 = (t_nodes t)[a := nd\<lparr>n_keys := take mid (n_keys nd),
                                       n_children := take (mid + 1) (n_children nd)\<rparr>] @ [newNode];
         nodes2 = foldl (\<lambda>ns c. ns[c := (ns ! c)\<lparr>n_parent := Some newAddr\<rparr>]) nodes1
                    (n_children newNode)
     in (t\<lparr>t_nodes := nodes2\<rparr>, promoteKey, newAddr))"

text \<open>A new root over two halves, as both split functions build it.\<close>

definition new_root :: "BPlusTree \<Rightarrow> nat \<Rightarrow> jsval \<Rightarrow> nat \<Rightarrow> BPlusTree" where
  "new_root t left promoteKey right =
    (let rootAddr = length (t_nodes t);
         newRoot = (new_node False (t_order t))\<lparr>n_keys := [promoteKey], n_children := [left, right]\<rparr>;
         nodes1 = (t_nodes t) @ [newRoot];
         nodes2 = nodes1[left := (nodes1 ! left)\<lparr>n_parent := Some rootAddr\<rparr>];
         nodes3 = nodes2[right := (nodes2 ! right)\<lparr>n_parent := Some rootAddr\<rparr>]
     in t\<lparr>t_nodes := nodes3, t_root := rootAddr, t_height := t_height t + 1\<rparr>)"

text \<open>The insertion of \<open>_insertIntoParent\<close> into the parent node, before the fullness test.\<close>

definition parent_insert :: "BPlusTree \<Rightarrow> nat \<Rightarrow> jsval \<Rightarrow> nat \<Rightarrow> BPlusTree" where
  "parent_insert t parent key rightChild =
    (let p = t_nodes t ! parent;
         pos = findKeyPosition p key;
         nodes1 = (t_nodes t)[parent := p\<lparr>n_keys := splice_in pos key (n_keys p),
                                           n_children := splice_in (pos + 1) rightChild (n_children p)\<rparr>];
         nodes2 = nodes1[rightChild := (nodes1 ! rightChild)\<lparr>n_parent := Some parent\<rparr>]
     in t\<lparr>t_nodes := nodes2\<rparr>)"

text \<open>
  \<open>_insertIntoParent\<close>, with the call of \<open>_splitInternal\<close> unfolded in place, since the two
  call each other. \<open>None\<close>: no return (the climb never ends, or the left child has no parent).
\<close>

partial_function (option) insertIntoParent ::
  "BPlusTree \<Rightarrow> nat \<Rightarrow> jsval \<Rightarrow> nat \<Rightarrow> BPlusTree option" where
  "insertIntoParent t leftChild key rightChild =
    (if length (t_nodes t) \<le> leftChild then None
     else case n_parent (t_nodes t ! leftChild) of
       None \<Rightarrow> None
     | Some parent \<Rightarrow>
         if length (t_nodes t) \<le> parent then None
         else if isFull (t_nodes (parent_insert t parent key rightChild) ! parent) then
           (if parent = t_root t
            then Some (new_root (fst (splitInternal_nodes (parent_insert t parent key rightChild) parent))
                         parent
                         (fst (snd (splitInternal_nodes (parent_insert t parent key rightChild) parent)))
                         (snd (snd (splitInternal_nodes (parent_insert t parent key rightChild) parent))))
            else insertIntoParent
                   (fst (splitInternal_nodes (parent_insert t parent key rightChild) parent))
                   parent
                   (fst (snd (splitInternal_nodes (parent_insert t parent key rightChild) parent)))
                   (snd (snd (splitInternal_nodes (parent_insert t parent key rightChild) parent))))
         else Some (parent_insert t parent key rightChild))"

definition splitInternal :: "BPlusTree \<Rightarrow> nat \<Rightarrow> BPlusTree option" where
  "splitInternal t a =
    (case splitInternal_nodes t a of
       (t', promoteKey, newAddr) \<Rightarrow>
         if a = t_root t then Some (new_root t' a promoteKey newAddr)
         else insertIntoParent t' a promoteKey newAddr)"

text \<open>
  The part of \<open>_splitLeaf\<close> before the promoted key goes up: the keys and values from the
  middle on move to a new leaf, which is linked in after the old one.
\<close>

definition splitLeaf_nodes :: "BPlusTree \<Rightarrow> nat \<Rightarrow> BPlusTree \<times> jsval \<times> nat" where
  "splitLeaf_nodes t leaf =
    (let nd = t_nodes t ! leaf;
         mid = length (n_keys nd) div 2;
         newAddr = length (t_nodes t);
         newLeaf = (new_node True (t_order t))
                     \<lparr>n_keys := drop mid (n_keys nd), n_values := drop mid (n_values nd),
                      n_next := n_next nd\<rparr>;
         nodes1 = (t_nodes t)[leaf := nd\<lparr>n_keys := take mid (n_keys nd),
                                          n_values := take mid (n_values nd),
                                          n_next := Some newAddr\<rparr>] @ [newLeaf]
     in (t\<lparr>t_nodes := nodes1\<rparr>, first_or_undefined (n_keys newLeaf), newAddr))"

definition splitLeaf :: "BPlusTree \<Rightarrow> nat \<Rightarrow> BPlusTree option" where
  "splitLeaf t leaf =
    (case splitLeaf_nodes t leaf of
       (t', promoteKey, newAddr) \<Rightarrow>
         if leaf = t_root t then Some (new_root t' leaf promoteKey newAddr)
         else insertIntoParent t' leaf promoteKey newAddr)"

text \<open>\<open>BPlusTree.insert\<close>.\<close>

definition bt_insert :: "BPlusTree \<Rightarrow> jsval \<Rightarrow> jsval \<Rightarrow> BPlusTree option" where
  "bt_insert t key val =
    (case findLeaf t key of
       None \<Rightarrow> None
     | Some leaf \<Rightarrow>
        (let nd = t_nodes t ! leaf;
             pos = findKeyPosition nd key
         in if pos < length (n_keys nd) \<and> js_strict_eq (n_keys nd ! pos) key
            then Some (set_node t leaf (nd\<lparr>n_values := (n_values nd)[pos := val]\<rparr>))
            else
              (let nd' = nd\<lparr>n_keys := splice_in pos key (n_keys nd),
                             n_values := splice_in pos val (n_values nd)\<rparr>;
                   t' = (set_node t leaf nd')\<lparr>t_size := t_size t + 1\<rparr>
               in if isFull nd' then splitLeaf t' leaf else Some t')))"

text \<open>\<open>BPlusTree.search\<close>: the value, or \<open>null\<close> (\<open>Some None\<close>).\<close>

definition nth_or_undefined :: "jsval list \<Rightarrow> nat \<Rightarrow> jsval" where
  "nth_or_undefined xs i = (if i < length xs then xs ! i else JUndefined)"

definition search :: "BPlusTree \<Rightarrow> jsval \<Rightarrow> jsval option option" where
  "search t key =
    (case findLeaf t key of
       None \<Rightarrow> None
     | Some leaf \<Rightarrow>
        (let nd = t_nodes t ! leaf;
             pos = findKeyPosition nd key
         in if pos < length (n_keys nd) \<and> js_strict_eq (n_keys nd ! pos) key
            then Some (Some (nth_or_undefined (n_values nd) pos))
            else Some None))"

text \<open>
  \<open>rangeQuery\<close>. The scan of one leaf from a position on gives the pairs it pushes and
  whether it returned (a key above \<open>endKey\<close>).
\<close>

definition leaf_pairs :: "node \<Rightarrow> (jsval \<times> jsval) list" where
  "leaf_pairs nd = map (\<lambda>i. (n_keys nd ! i, nth_or_undefined (n_values nd) i)) [0..<length (n_keys nd)]"

fun range_scan :: "(jsval \<times> jsval) list \<Rightarrow> jsval \<Rightarrow> jsval \<Rightarrow> (jsval \<times> jsval) list \<times> bool" where
  "range_scan [] startKey endKey = ([], False)"
| "range_scan ((k, v) # kvs) startKey endKey =
     (if js_gt k endKey then ([], True)
      else (case range_scan kvs startKey endKey of
              (rs, fin) \<Rightarrow> ((if js_ge k startKey then [(k, v)] else []) @ rs, fin)))"

partial_function (option) rangeQuery_loop ::
  "BPlusTree \<Rightarrow> jsval \<Rightarrow> jsval \<Rightarrow> nat option \<Rightarrow> nat \<Rightarrow> (jsval \<times> jsval) list
     \<Rightarrow> (jsval \<times> jsval) list option" where
  "rangeQuery_loop t startKey endKey leaf pos results =
    (case leaf of
       None \<Rightarrow> Some results
     | Some l \<Rightarrow>
         if length (t_nodes t) \<le> l then None
         else if snd (range_scan (drop pos (leaf_pairs (t_nodes t ! l))) startKey endKey)
         then Some (results @ fst (range_scan (drop pos (leaf_pairs (t_nodes t ! l))) startKey endKey))
         else rangeQuery_loop t startKey endKey (n_next (t_nodes t ! l)) 0
                (results @ fst (range_scan (drop pos (leaf_pairs (t_nodes t ! l))) startKey endKey)))"

definition rangeQuery :: "BPlusTree \<Rightarrow> jsval \<Rightarrow> jsval \<Rightarrow> (jsval \<times> jsval) list option" where
  "rangeQuery t startKey endKey =
    (case findLeaf t startKey of
       None \<Rightarrow> None
     | Some leaf \<Rightarrow>
         rangeQuery_loop t startKey endKey (Some leaf)
           (findKeyPosition (t_nodes t ! leaf) startKey) [])"

text \<open>
  \<open>BPlusTree.delete\<close> with \<open>_rebalanceLeaf\<close> and \<open>_mergeLeaf\<close>. \<open>pop\<close> and \<open>shift\<close> on an
  empty array give \<open>undefined\<close>. \<open>_rebalanceInternal\<close> has an empty body. \<open>None\<close>: no
  return (a sibling or a parent that is not there is read); a leaf that is not among the
  children of its parent does not occur in the trees the operations build and is \<open>None\<close> too.
\<close>

definition last_or_undefined :: "jsval list \<Rightarrow> jsval" where
  "last_or_undefined xs = (if xs = [] then JUndefined else last xs)"

definition indexOf :: "'a list \<Rightarrow> 'a \<Rightarrow> nat option" where
  "indexOf xs x = findIndex (\<lambda>y. y = x) xs"

definition borrow_left :: "BPlusTree \<Rightarrow> nat \<Rightarrow> nat \<Rightarrow> nat \<Rightarrow> nat \<Rightarrow> BPlusTree" where
  "borrow_left t leaf parent childIndex leftSibling =
    (let ls = t_nodes t ! leftSibling;
         nodes1 = (t_nodes t)[leftSibling := ls\<lparr>n_keys := butlast (n_keys ls),
                                                  n_values := butlast (n_values ls)\<rparr>];
         lf = nodes1 ! leaf;
         nodes2 = nodes1[leaf := lf\<lparr>n_keys := last_or_undefined (n_keys ls) # n_keys lf,
                                      n_values := last_or_undefined (n_values ls) # n_values lf\<rparr>];
         p = nodes2 ! parent;
         nodes3 = nodes2[parent := p\<lparr>n_keys := (n_keys p)
                                         [childIndex - 1 := first_or_undefined (n_keys (nodes2 ! leaf))]\<rparr>]
     in t\<lparr>t_nodes := nodes3\<rparr>)"

definition borrow_right :: "BPlusTree \<Rightarrow> nat \<Rightarrow> nat \<Rightarrow> nat \<Rightarrow> nat \<Rightarrow> BPlusTree" where
  "borrow_right t leaf parent childIndex rightSibling =
    (let rs = t_nodes t ! rightSibling;
         nodes1 = (t_nodes t)[rightSibling := rs\<lparr>n_keys := tl (n_keys rs),
                                                   n_values := tl (n_values rs)\<rparr>];
         lf = nodes1 ! leaf;
         nodes2 = nodes1[leaf := lf\<lparr>n_keys := n_keys lf @ [first_or_undefined (n_keys rs)],
                                      n_values := n_values lf @ [first_or_undefined (n_values rs)]\<rparr>];
         p = nodes2 ! parent;
         nodes3 = nodes2[parent := p\<lparr>n_keys := (n_keys p)
                                         [childIndex := first_or_undefined (n_keys (nodes2 ! rightSibling))]\<rparr>]
     in t\<lparr>t_nodes := nodes3\<rparr>)"

text \<open>What \<open>_mergeLeaf\<close> does after the merge, when it looks at the parent.\<close>

definition after_merge :: "BPlusTree \<Rightarrow> nat \<Rightarrow> BPlusTree option" where
  "after_merge t parent =
    (if parent \<noteq> t_root t \<and> isUnderfull (t_nodes t ! parent) then Some t
     else if parent = t_root t \<and> n_keys (t_nodes t ! parent) = [] then
       (case n_children (t_nodes t ! parent) of
          [] \<Rightarrow> None
        | c # _ \<Rightarrow>
            if length (t_nodes t) \<le> c then None
            else Some (t\<lparr>t_root := c,
                          t_nodes := (t_nodes t)[c := (t_nodes t ! c)\<lparr>n_parent := None\<rparr>],
                          t_height := t_height t - 1\<rparr>))
     else Some t)"

definition mergeLeaf :: "BPlusTree \<Rightarrow> nat \<Rightarrow> nat \<Rightarrow> nat \<Rightarrow> BPlusTree option" where
  "mergeLeaf t leaf parent childIndex =
    (let p = t_nodes t ! parent; lf = t_nodes t ! leaf in
     if childIndex > 0 then
       (let leftSibling = n_children p ! (childIndex - 1) in
        if length (t_nodes t) \<le> leftSibling then None
        else
          (let ls = t_nodes t ! leftSibling;
               nodes1 = (t_nodes t)[leftSibling := ls\<lparr>n_keys := n_keys ls @ n_keys lf,
                                                        n_values := n_values ls @ n_values lf,
                                                        n_next := n_next lf\<rparr>];
               p1 = nodes1 ! parent;
               nodes2 = nodes1[parent := p1\<lparr>n_keys := splice_out (childIndex - 1) (n_keys p1),
                                               n_children := splice_out childIndex (n_children p1)\<rparr>]
           in after_merge (t\<lparr>t_nodes := nodes2\<rparr>) parent))
     else if length (n_children p) \<le> childIndex + 1 then None
     else
       (let rightSibling = n_children p ! (childIndex + 1) in
        if length (t_nodes t) \<le> rightSibling then None
        else
          (let rs = t_nodes t ! rightSibling;
               nodes1 = (t_nodes t)[leaf := lf\<lparr>n_keys := n_keys lf @ n_keys rs,
                                                 n_values := n_values lf @ n_values rs,
                                                 n_next := n_next rs\<rparr>];
               p1 = nodes1 ! parent;
               nodes2 = nodes1[parent := p1\<lparr>n_keys := splice_out childIndex (n_keys p1),
                                               n_children := splice_out (childIndex + 1) (n_children p1)\<rparr>]
           in after_merge (t\<lparr>t_nodes := nodes2\<rparr>) parent)))"

definition rebalanceLeaf :: "BPlusTree \<Rightarrow> nat \<Rightarrow> BPlusTree option" where
  "rebalanceLeaf t leaf =
    (case n_parent (t_nodes t ! leaf) of
       None \<Rightarrow> Some t
     | Some parent \<Rightarrow>
         if length (t_nodes t) \<le> parent then None
         else
           (case indexOf (n_children (t_nodes t ! parent)) leaf of
              None \<Rightarrow> None
            | Some childIndex \<Rightarrow>
                (let cs = n_children (t_nodes t ! parent) in
                 if childIndex > 0 \<and> length (t_nodes t) \<le> cs ! (childIndex - 1) then None
                 else if childIndex > 0 \<and>
                         int (length (n_keys (t_nodes t ! (cs ! (childIndex - 1))))) > minKeys (t_order t)
                 then Some (borrow_left t leaf parent childIndex (cs ! (childIndex - 1)))
                 else if childIndex + 1 < length cs \<and> length (t_nodes t) \<le> cs ! (childIndex + 1)
                 then None
                 else if childIndex + 1 < length cs \<and>
                         int (length (n_keys (t_nodes t ! (cs ! (childIndex + 1))))) > minKeys (t_order t)
                 then Some (borrow_right t leaf parent childIndex (cs ! (childIndex + 1)))
                 else mergeLeaf t leaf parent childIndex)))"

definition bt_delete :: "BPlusTree \<Rightarrow> jsval \<Rightarrow> (BPlusTree \<times> bool) option" where
  "bt_delete t key =
    (case findLeaf t key of
       None \<Rightarrow> None
     | Some leaf \<Rightarrow>
        (let nd = t_nodes t ! leaf;
             pos = findKeyPosition nd key
         in if length (n_keys nd) \<le> pos \<or> \<not> js_strict_eq (n_keys nd ! pos) key
            then Some (t, False)
            else
              (let nd' = nd\<lparr>n_keys := splice_out pos (n_keys nd),
                             n_values := splice_out pos (n_values nd)\<rparr>;
                   t' = (set_node t leaf nd')\<lparr>t_size := t_size t - 1\<rparr>
               in if leaf \<noteq> t_root t \<and> isUnderfull nd'
                  then (case rebalanceLeaf t' leaf of None \<Rightarrow> None | Some t'' \<Rightarrow> Some (t'', True))
                  else Some (t', True))))"

text \<open>The pairs of the leaf chain from a leaf on, as \<open>keys()\<close> and \<open>values()\<close> walk it.\<close>

partial_function (option) chain_pairs :: "BPlusTree \<Rightarrow> nat option \<Rightarrow> (jsval \<times> jsval) list option" where
  "chain_pairs t leaf =
    (case leaf of
       None \<Rightarrow> Some []
     | Some l \<Rightarrow>
         if length (t_nodes t) \<le> l then None
         else Option.bind (chain_pairs t (n_next (t_nodes t ! l)))
                (\<lambda>rest. Some (leaf_pairs (t_nodes t ! l) @ rest)))"

definition bt_entries :: "BPlusTree \<Rightarrow> (jsval \<times> jsval) list option" where
  "bt_entries t = chain_pairs t (Some (t_firstLeaf t))"

section \<open>Sharded hash index\<close>

record ShardedHashIndex =
  shardCount :: nat
  shards :: "HashIndex list"

definition new_ShardedHashIndex :: "nat \<Rightarrow> ShardedHashIndex" where
  "new_ShardedHashIndex n =
     \<lparr>shardCount = n, shards = replicate n (new_HashIndex INITIAL_CAPACITY)\<rparr>"

text \<open>\<open>_getShard\<close> gives the position of the shard; its request counters are not modelled.\<close>

definition getShard :: "ShardedHashIndex \<Rightarrow> jsval \<Rightarrow> nat option" where
  "getShard s key =
    (if shardCount s = 0 \<or> length (shards s) \<le> unat (hash key) mod shardCount s then None
     else Some (unat (hash key) mod shardCount s))"

definition sh_insert :: "ShardedHashIndex \<Rightarrow> jsval \<Rightarrow> jsval \<Rightarrow> ShardedHashIndex option" where
  "sh_insert s key val =
    (case getShard s key of
       None \<Rightarrow> None
     | Some i \<Rightarrow>
        (case insert (shards s ! i) key val of
           None \<Rightarrow> None
         | Some h \<Rightarrow> Some (s\<lparr>shards := (shards s)[i := h]\<rparr>)))"

definition sh_get :: "ShardedHashIndex \<Rightarrow> jsval \<Rightarrow> error + jsval option" where
  "sh_get s key =
    (case getShard s key of
       None \<Rightarrow> Inl TypeError
     | Some i \<Rightarrow> get (shards s ! i) key)"

definition sh_delete :: "ShardedHashIndex \<Rightarrow> jsval \<Rightarrow> (ShardedHashIndex \<times> bool) option" where
  "sh_delete s key =
    (case getShard s key of
       None \<Rightarrow> None
     | Some i \<Rightarrow>
        (case delete (shards s ! i) key of
           None \<Rightarrow> None
         | Some (h, b) \<Rightarrow> Some (s\<lparr>shards := (shards s)[i := h]\<rparr>, b)))"

definition sh_entries :: "ShardedHashIndex \<Rightarrow> (jsval \<times> jsval) list" where
  "sh_entries s = concat (map entries (shards s))"

section \<open>Collections and the index manager\<close>

text \<open>
  A \<open>Map\<close> is an association list in insertion order: \<open>set\<close> on a key that is there keeps
  its place.
\<close>

fun map_get :: "('k \<times> 'v) list \<Rightarrow> 'k \<Rightarrow> 'v option" where
  "map_get [] k = None"
| "map_get ((k', v) # m) k = (if k' = k then Some v else map_get m k)"

fun map_set :: "('k \<times> 'v) list \<Rightarrow> 'k \<Rightarrow> 'v \<Rightarrow> ('k \<times> 'v) list" where
  "map_set [] k v = [(k, v)]"
| "map_set ((k', v') # m) k v = (if k' = k then (k, v) # m else (k', v') # map_set m k v)"

fun map_delete :: "('k \<times> 'v) list \<Rightarrow> 'k \<Rightarrow> ('k \<times> 'v) list" where
  "map_delete [] k = []"
| "map_delete ((k', v') # m) k = (if k' = k then m else (k', v') # map_delete m k)"

definition map_has :: "('k \<times> 'v) list \<Rightarrow> 'k \<Rightarrow> bool" where
  "map_has m k = (map_get m k \<noteq> None)"

type_synonym document = "(string \<times> jsval) list"

text \<open>
  The collection object that \<open>GhostDB.createCollection\<close> builds and hands to the memory
  engine: both hold the same object. \<open>c_metadata\<close> is what reading its \<open>metadata\<close> property
  gives.
\<close>

record schema =
  s_required :: "string list option"
  s_fields :: "(string \<times> string) list option"

record collection =
  c_name :: string
  c_schema :: schema
  c_data :: "(jsval \<times> document) list"
  c_metadata :: jsval

type_synonym storage = "(string \<times> collection) list"

text \<open>\<open>MemoryEngine.get\<close> (\<open>None\<close> for \<open>null\<close> or \<open>undefined\<close>) and \<open>MemoryEngine.scan\<close>.\<close>

definition storage_get :: "storage \<Rightarrow> string \<Rightarrow> jsval \<Rightarrow> document option" where
  "storage_get st collectionName docId =
    (case map_get st collectionName of
       None \<Rightarrow> None
     | Some c \<Rightarrow> map_get (c_data c) docId)"

definition storage_scan :: "storage \<Rightarrow> string \<Rightarrow> document list" where
  "storage_scan st collectionName =
    (case map_get st collectionName of
       None \<Rightarrow> []
     | Some c \<Rightarrow> map snd (c_data c))"

datatype hash_index = PlainHash HashIndex | ShardedHash ShardedHashIndex

record index =
  ix_fieldName :: string
  ix_hash :: "hash_index option"
  ix_btree :: "BPlusTree option"
  ix_unique :: bool
  ix_sharded :: bool

text \<open>
  The options of \<open>createIndex\<close>: \<open>io_type\<close> is \<open>options.type\<close>, \<open>io_sharded\<close> is
  \<open>options.sharded !== false\<close>, \<open>io_unique\<close> is the truth value of \<open>options.unique\<close>.
\<close>

record index_options =
  io_type :: jsval
  io_sharded :: bool
  io_unique :: bool

type_synonym index_manager = "(string \<times> (string \<times> index) list) list"

definition hi_insert :: "hash_index \<Rightarrow> jsval \<Rightarrow> jsval \<Rightarrow> hash_index option" where
  "hi_insert hi key val =
    (case hi of
       PlainHash h \<Rightarrow> map_option PlainHash (insert h key val)
     | ShardedHash s \<Rightarrow> map_option ShardedHash (sh_insert s key val))"

definition hi_delete :: "hash_index \<Rightarrow> jsval \<Rightarrow> hash_index option" where
  "hi_delete hi key =
    (case hi of
       PlainHash h \<Rightarrow> map_option (\<lambda>r. PlainHash (fst r)) (delete h key)
     | ShardedHash s \<Rightarrow> map_option (\<lambda>r. ShardedHash (fst r)) (sh_delete s key))"

definition hi_get :: "hash_index \<Rightarrow> jsval \<Rightarrow> error + jsval option" where
  "hi_get hi key = (case hi of PlainHash h \<Rightarrow> get h key | ShardedHash s \<Rightarrow> sh_get s key)"

definition hi_entries :: "hash_index \<Rightarrow> (jsval \<times> jsval) list" where
  "hi_entries hi = (case hi of PlainHash h \<Rightarrow> entries h | ShardedHash s \<Rightarrow> sh_entries s)"

text \<open>\<open>_addToIndex\<close> and \<open>_removeFromIndex\<close>; the latter receives the document id and does
  not use it.\<close>

definition addToIndex :: "index \<Rightarrow> jsval \<Rightarrow> jsval \<Rightarrow> index option" where
  "addToIndex ix fieldValue docId =
    (case (case ix_hash ix of
             None \<Rightarrow> Some ix
           | Some hi \<Rightarrow> map_option (\<lambda>hi'. ix\<lparr>ix_hash := Some hi'\<rparr>) (hi_insert hi fieldValue docId)) of
       None \<Rightarrow> None
     | Some ix1 \<Rightarrow>
        (case ix_btree ix1 of
           None \<Rightarrow> Some ix1
         | Some bt \<Rightarrow> map_option (\<lambda>bt'. ix1\<lparr>ix_btree := Some bt'\<rparr>) (bt_insert bt fieldValue docId)))"

definition removeFromIndex :: "index \<Rightarrow> jsval \<Rightarrow> jsval \<Rightarrow> index option" where
  "removeFromIndex ix fieldValue docId =
    (case (case ix_hash ix of
             None \<Rightarrow> Some ix
           | Some hi \<Rightarrow> map_option (\<lambda>hi'. ix\<lparr>ix_hash := Some hi'\<rparr>) (hi_delete hi fieldValue)) of
       None \<Rightarrow> None
     | Some ix1 \<Rightarrow>
        (case ix_btree ix1 of
           None \<Rightarrow> Some ix1
         | Some bt \<Rightarrow> map_option (\<lambda>r. ix1\<lparr>ix_btree := Some (fst r)\<rparr>) (bt_delete bt fieldValue)))"

fun buildIndex_loop :: "index \<Rightarrow> string \<Rightarrow> document list \<Rightarrow> index option" where
  "buildIndex_loop ix fieldName [] = Some ix"
| "buildIndex_loop ix fieldName (doc # docs) =
     (if js_get doc fieldName \<noteq> JUndefined
      then (case addToIndex ix (js_get doc fieldName) (js_get doc ''_id'') of
              None \<Rightarrow> None
            | Some ix' \<Rightarrow> buildIndex_loop ix' fieldName docs)
      else buildIndex_loop ix fieldName docs)"

definition buildIndex :: "storage \<Rightarrow> string \<Rightarrow> index \<Rightarrow> index option" where
  "buildIndex st collectionName ix =
    (case map_get st collectionName of
       None \<Rightarrow> Some ix
     | Some c \<Rightarrow> buildIndex_loop ix (ix_fieldName ix) (map snd (c_data c)))"

definition new_index :: "string \<Rightarrow> index_options \<Rightarrow> index" where
  "new_index fieldName opts =
    (let type = (if js_truthy (io_type opts) then io_type opts else JStr ''both'') in
     \<lparr>ix_fieldName = fieldName,
      ix_hash = (if js_strict_eq type (JStr ''hash'') \<or> js_strict_eq type (JStr ''both'')
                 then Some (if io_sharded opts then ShardedHash (new_ShardedHashIndex 16)
                            else PlainHash (new_HashIndex INITIAL_CAPACITY))
                 else None),
      ix_btree = (if js_strict_eq type (JStr ''btree'') \<or> js_strict_eq type (JStr ''both'')
                  then Some (new_BPlusTree DEFAULT_ORDER) else None),
      ix_unique = io_unique opts,
      ix_sharded = io_sharded opts\<rparr>)"

text \<open>\<open>IndexManager.createIndex\<close>: the index is registered, then built from the documents.\<close>

definition im_createIndex ::
  "index_manager \<Rightarrow> storage \<Rightarrow> string \<Rightarrow> string \<Rightarrow> index_options \<Rightarrow> error + index_manager" where
  "im_createIndex im st collectionName fieldName opts =
    (let collectionIndexes = (case map_get im collectionName of None \<Rightarrow> [] | Some m \<Rightarrow> m) in
     if map_has collectionIndexes fieldName
     then Inl (Error (''Index on '' @ collectionName @ ''.'' @ fieldName @ '' already exists''))
     else (case buildIndex st collectionName (new_index fieldName opts) of
             None \<Rightarrow> Inl NoReturn
           | Some ix \<Rightarrow> Inr (map_set im collectionName (map_set collectionIndexes fieldName ix))))"

datatype operation = OpInsert | OpUpdate | OpDelete

text \<open>
  The body of the loop of \<open>updateIndexes\<close> for one index. \<open>oldDocument\<close> is \<open>None\<close> for
  \<open>null\<close>, and then \<open>oldValue\<close> is \<open>null\<close>, which is not \<open>undefined\<close>.
\<close>

definition updateIndex ::
  "index \<Rightarrow> document \<Rightarrow> operation \<Rightarrow> document option \<Rightarrow> index option" where
  "updateIndex ix doc operation oldDocument =
    (let newValue = js_get doc (ix_fieldName ix);
         old_defined = (case oldDocument of None \<Rightarrow> True
                        | Some od \<Rightarrow> js_get od (ix_fieldName ix) \<noteq> JUndefined);
         oldValue = (case oldDocument of None \<Rightarrow> JUndefined
                     | Some od \<Rightarrow> js_get od (ix_fieldName ix))
     in case operation of
          OpDelete \<Rightarrow>
            if newValue \<noteq> JUndefined then removeFromIndex ix newValue (js_get doc ''_id'')
            else Some ix
        | _ \<Rightarrow>
            (case (if operation = OpUpdate \<and> old_defined
                   then removeFromIndex ix oldValue (js_get doc ''_id'') else Some ix) of
               None \<Rightarrow> None
             | Some ix1 \<Rightarrow>
                 if newValue \<noteq> JUndefined then addToIndex ix1 newValue (js_get doc ''_id'')
                 else Some ix1))"

fun updateIndexes_loop ::
  "(string \<times> index) list \<Rightarrow> document \<Rightarrow> operation \<Rightarrow> document option
     \<Rightarrow> (string \<times> index) list option" where
  "updateIndexes_loop [] doc operation oldDocument = Some []"
| "updateIndexes_loop ((fieldName, ix) # rest) doc operation oldDocument =
     (case updateIndex ix doc operation oldDocument of
        None \<Rightarrow> None
      | Some ix' \<Rightarrow>
         (case updateIndexes_loop rest doc operation oldDocument of
            None \<Rightarrow> None
          | Some rest' \<Rightarrow> Some ((fieldName, ix') # rest')))"

definition updateIndexes ::
  "index_manager \<Rightarrow> string \<Rightarrow> document \<Rightarrow> operation \<Rightarrow> document option
     \<Rightarrow> index_manager option" where
  "updateIndexes im collectionName doc operation oldDocument =
    (case map_get im collectionName of
       None \<Rightarrow> Some im
     | Some collectionIndexes \<Rightarrow>
         map_option (map_set im collectionName)
           (updateIndexes_loop collectionIndexes doc operation oldDocument))"

definition hasIndex :: "index_manager \<Rightarrow> string \<Rightarrow> string \<Rightarrow> bool" where
  "hasIndex im collectionName fieldName =
    (case map_get im collectionName of
       None \<Rightarrow> False
     | Some collectionIndexes \<Rightarrow> map_has collectionIndexes fieldName)"

text \<open>\<open>IndexManager.lookup\<close>: \<open>null\<close>, a value of the hash index, or the pairs of a range.\<close>

datatype lookup_type = NoType | Equality | Range

datatype lookup_result = LNull | LValue jsval | LRange "(jsval \<times> jsval) list"

definition lookup ::
  "index_manager \<Rightarrow> string \<Rightarrow> string \<Rightarrow> jsval \<Rightarrow> lookup_type \<Rightarrow> jsval \<Rightarrow> jsval
     \<Rightarrow> error + lookup_result" where
  "lookup im collectionName fieldName v type startKey endKey =
    (case map_get im collectionName of
       None \<Rightarrow> Inr LNull
     | Some collectionIndexes \<Rightarrow>
        (case map_get collectionIndexes fieldName of
           None \<Rightarrow> Inr LNull
         | Some ix \<Rightarrow>
             if (type = Equality \<or> type = NoType) \<and> ix_hash ix \<noteq> None then
               (case hi_get (the (ix_hash ix)) v of
                  Inl e \<Rightarrow> Inl e
                | Inr None \<Rightarrow> Inr LNull
                | Inr (Some x) \<Rightarrow> Inr (LValue x))
             else if type = Range \<and> ix_btree ix \<noteq> None then
               (case rangeQuery (the (ix_btree ix)) startKey endKey of
                  None \<Rightarrow> Inl NoReturn
                | Some rs \<Rightarrow> Inr (LRange rs))
             else Inr LNull))"

section \<open>Query engine\<close>

text \<open>
  A filter is an object, given by its properties in order. Property names that are array
  indices, which the language enumerates first, are outside the model.
\<close>

datatype plan = FullScan | IndexEquality string jsval | IndexRange string jsval jsval

fun js_typeof :: "jsval \<Rightarrow> string" where
  "js_typeof JUndefined = ''undefined''"
| "js_typeof (JNum n) = ''number''"
| "js_typeof (JStr s) = ''string''"
| "js_typeof (JObj a fs) = ''object''"

definition starts_with_dollar :: "string \<Rightarrow> bool" where
  "starts_with_dollar s = (case s of [] \<Rightarrow> False | c # _ \<Rightarrow> c = CHR ''$'')"

text \<open>\<open>value.name\<close> for a value that is not \<open>undefined\<close>.\<close>

fun js_prop :: "jsval \<Rightarrow> string \<Rightarrow> jsval" where
  "js_prop (JObj a fs) name = js_get fs name"
| "js_prop v name = JUndefined"

text \<open>
  \<open>_createQueryPlan\<close>. The range branch computes its cost from
  \<open>getCollection(collectionName).metadata.documentCount\<close>, which throws when the collection or
  its \<open>metadata\<close> is \<open>undefined\<close>.
\<close>

fun createQueryPlan ::
  "index_manager \<Rightarrow> storage \<Rightarrow> string \<Rightarrow> (string \<times> jsval) list \<Rightarrow> error + plan" where
  "createQueryPlan im st collectionName [] = Inr FullScan"
| "createQueryPlan im st collectionName ((field, v) # rest) =
    (if starts_with_dollar field then createQueryPlan im st collectionName rest
     else if hasIndex im collectionName field then
       (if js_typeof v = ''object'' \<and>
           (js_prop v ''$gte'' \<noteq> JUndefined \<or> js_prop v ''$lte'' \<noteq> JUndefined)
        then (case map_get st collectionName of
                None \<Rightarrow> Inl TypeError
              | Some c \<Rightarrow>
                  if c_metadata c = JUndefined then Inl TypeError
                  else Inr (IndexRange field (js_prop v ''$gte'') (js_prop v ''$lte'')))
        else Inr (IndexEquality field v))
     else createQueryPlan im st collectionName rest)"

text \<open>
  \<open>_executePlan\<close>. A lookup of type range gives pairs or \<open>null\<close>, and iterating over
  \<open>null\<close> throws.
\<close>

definition executePlan ::
  "index_manager \<Rightarrow> storage \<Rightarrow> string \<Rightarrow> plan \<Rightarrow> error + document list" where
  "executePlan im st collectionName p =
    (case p of
       IndexEquality field v \<Rightarrow>
         (case lookup im collectionName field v Equality JUndefined JUndefined of
            Inl e \<Rightarrow> Inl e
          | Inr (LValue docId) \<Rightarrow>
              if js_truthy docId
              then (case storage_get st collectionName docId of
                      None \<Rightarrow> Inr []
                    | Some doc \<Rightarrow> Inr [doc])
              else Inr []
          | Inr _ \<Rightarrow> Inr [])
     | IndexRange field startKey endKey \<Rightarrow>
         (case lookup im collectionName field JUndefined Range startKey endKey of
            Inl e \<Rightarrow> Inl e
          | Inr (LRange rs) \<Rightarrow>
              Inr (concat (map (\<lambda>r. case storage_get st collectionName (snd r) of
                                         None \<Rightarrow> []
                                       | Some doc \<Rightarrow> [doc]) rs))
          | Inr _ \<Rightarrow> Inl TypeError)
     | FullScan \<Rightarrow> Inr (storage_scan st collectionName))"

fun is_prefix :: "string \<Rightarrow> string \<Rightarrow> bool" where
  "is_prefix [] ys = True"
| "is_prefix (x # xs) [] = False"
| "is_prefix (x # xs) (y # ys) = (x = y \<and> is_prefix xs ys)"

fun is_substring :: "string \<Rightarrow> string \<Rightarrow> bool" where
  "is_substring xs [] = (xs = [])"
| "is_substring xs (y # ys) = (is_prefix xs (y # ys) \<or> is_substring xs ys)"

text \<open>
  \<open>value.includes(fieldValue)\<close>: only a string has \<open>includes\<close> among the values of the model,
  and it looks for \<open>String(fieldValue)\<close>.
\<close>

fun js_includes :: "jsval \<Rightarrow> jsval \<Rightarrow> error + bool" where
  "js_includes (JStr s) fieldValue = Inr (is_substring (js_String fieldValue) s)"
| "js_includes v fieldValue = Inl TypeError"

text \<open>
  \<open>_evaluateComparison\<close>. An operator that is not known ends the loop with \<open>true\<close>. The
  operand of \<open>$exists\<close> is never a boolean in the model, so the test
  \<open>(fieldValue !== undefined) !== value\<close> holds.
\<close>

fun evaluateComparison :: "jsval \<Rightarrow> (string \<times> jsval) list \<Rightarrow> error + bool" where
  "evaluateComparison fieldValue [] = Inr True"
| "evaluateComparison fieldValue ((op, v) # rest) =
    (if op = ''$eq'' then
       (if \<not> js_strict_eq fieldValue v then Inr False else evaluateComparison fieldValue rest)
     else if op = ''$ne'' then
       (if js_strict_eq fieldValue v then Inr False else evaluateComparison fieldValue rest)
     else if op = ''$gt'' then
       (if js_le fieldValue v then Inr False else evaluateComparison fieldValue rest)
     else if op = ''$gte'' then
       (if js_lt fieldValue v then Inr False else evaluateComparison fieldValue rest)
     else if op = ''$lt'' then
       (if js_ge fieldValue v then Inr False else evaluateComparison fieldValue rest)
     else if op = ''$lte'' then
       (if js_gt fieldValue v then Inr False else evaluateComparison fieldValue rest)
     else if op = ''$in'' then
       (case js_includes v fieldValue of
          Inl e \<Rightarrow> Inl e
        | Inr b \<Rightarrow> if \<not> b then Inr False else evaluateComparison fieldValue rest)
     else if op = ''$nin'' then
       (case js_includes v fieldValue of
          Inl e \<Rightarrow> Inl e
        | Inr b \<Rightarrow> if b then Inr False else evaluateComparison fieldValue rest)
     else if op = ''$exists'' then Inr False
     else Inr True)"

text \<open>The properties of a string are its code units under their positions.\<close>

definition matches_chars :: "document \<Rightarrow> string \<Rightarrow> bool" where
  "matches_chars doc s =
     list_all (\<lambda>i. js_strict_eq (js_get doc (digits i)) (JStr [s ! i])) [0..<length s]"

text \<open>
  \<open>_matchesFilter\<close> and \<open>_evaluateOperator\<close>. \<open>$and\<close> and \<open>$or\<close> call \<open>every\<close> and
  \<open>some\<close> of their operand, which no value of the model has.
\<close>

fun matchesFilter :: "document \<Rightarrow> (string \<times> jsval) list \<Rightarrow> error + bool"
  and evaluateOperator :: "document \<Rightarrow> string \<Rightarrow> jsval \<Rightarrow> error + bool" where
  "matchesFilter doc [] = Inr True"
| "matchesFilter doc ((key, v) # rest) =
    (if starts_with_dollar key then
       (case evaluateOperator doc key v of
          Inl e \<Rightarrow> Inl e
        | Inr b \<Rightarrow> if \<not> b then Inr False else matchesFilter doc rest)
     else if js_typeof v = ''object'' then
       (case evaluateComparison (js_get doc key) (case v of JObj a fs \<Rightarrow> fs | _ \<Rightarrow> []) of
          Inl e \<Rightarrow> Inl e
        | Inr b \<Rightarrow> if \<not> b then Inr False else matchesFilter doc rest)
     else if \<not> js_strict_eq (js_get doc key) v then Inr False
     else matchesFilter doc rest)"
| "evaluateOperator doc op (JObj a fs) =
    (if op = ''$and'' \<or> op = ''$or'' then Inl TypeError
     else if op = ''$not'' then
       (case matchesFilter doc fs of Inl e \<Rightarrow> Inl e | Inr b \<Rightarrow> Inr (\<not> b))
     else Inr True)"
| "evaluateOperator doc op JUndefined =
    (if op = ''$and'' \<or> op = ''$or'' \<or> op = ''$not'' then Inl TypeError else Inr True)"
| "evaluateOperator doc op (JNum n) =
    (if op = ''$and'' \<or> op = ''$or'' then Inl TypeError
     else if op = ''$not'' then Inr False
     else Inr True)"
| "evaluateOperator doc op (JStr s) =
    (if op = ''$and'' \<or> op = ''$or'' then Inl TypeError
     else if op = ''$not'' then Inr (\<not> matches_chars doc s)
     else Inr True)"

fun applyFilter :: "document list \<Rightarrow> (string \<times> jsval) list \<Rightarrow> error + document list" where
  "applyFilter [] flt = Inr []"
| "applyFilter (doc # docs) flt =
    (case matchesFilter doc flt of
       Inl e \<Rightarrow> Inl e
     | Inr b \<Rightarrow>
        (case applyFilter docs flt of
           Inl e \<Rightarrow> Inl e
         | Inr rest \<Rightarrow> Inr (if b then doc # rest else rest)))"

text \<open>
  \<open>_applySort\<close>. The comparator is the one of the source; \<open>Array.prototype.sort\<close> is taken
  to be a stable insertion sort, which is what every engine gives for a comparator that is
  a consistent order.
\<close>

fun sort_compare :: "(string \<times> jsval) list \<Rightarrow> document \<Rightarrow> document \<Rightarrow> int" where
  "sort_compare [] a b = 0"
| "sort_compare ((field, direction) # rest) a b =
    (if js_strict_eq (js_get a field) (js_get b field) then sort_compare rest a b
     else if js_get a field = JUndefined then 1
     else if js_get b field = JUndefined then - 1
     else if js_strict_eq direction (JNum 1)
          then (if js_lt (js_get a field) (js_get b field) then - 1 else 1)
          else - (if js_lt (js_get a field) (js_get b field) then - 1 else 1))"

fun insert_sorted :: "('a \<Rightarrow> 'a \<Rightarrow> int) \<Rightarrow> 'a \<Rightarrow> 'a list \<Rightarrow> 'a list" where
  "insert_sorted cmp x [] = [x]"
| "insert_sorted cmp x (y # ys) =
     (if cmp x y \<le> 0 then x # y # ys else y # insert_sorted cmp x ys)"

definition applySort :: "document list \<Rightarrow> (string \<times> jsval) list \<Rightarrow> document list" where
  "applySort docs srt = foldr (insert_sorted (sort_compare srt)) docs []"

text \<open>\<open>xs.slice(start, end)\<close> with integral arguments; a value that is not a number counts
  as 0.\<close>

fun to_integer :: "jsval \<Rightarrow> int" where
  "to_integer (JNum n) = n"
| "to_integer v = 0"

definition rel_index :: "nat \<Rightarrow> int \<Rightarrow> nat" where
  "rel_index len i = (if i < 0 then nat (max (int len + i) 0) else min (nat i) len)"

definition js_slice :: "'a list \<Rightarrow> int \<Rightarrow> int \<Rightarrow> 'a list" where
  "js_slice xs start fin =
     take (rel_index (length xs) fin - rel_index (length xs) start)
       (drop (rel_index (length xs) start) xs)"

definition applyProjection :: "document list \<Rightarrow> string list \<Rightarrow> document list" where
  "applyProjection docs select =
     map (\<lambda>doc. foldl (\<lambda>projected field.
                          if js_has doc field then js_set projected field (js_get doc field)
                          else projected)
                  [(''_id'', js_get doc ''_id'')] select) docs"

text \<open>The options of a query: \<open>None\<close> where \<open>sort\<close> or \<open>select\<close> is absent.\<close>

record query_options =
  o_sort :: "(string \<times> jsval) list option"
  o_skip :: jsval
  o_limit :: jsval
  o_select :: "string list option"

definition no_options :: query_options where
  "no_options = \<lparr>o_sort = None, o_skip = JUndefined, o_limit = JUndefined, o_select = None\<rparr>"

definition sort_stage :: "query_options \<Rightarrow> document list \<Rightarrow> document list" where
  "sort_stage opts results = (case o_sort opts of None \<Rightarrow> results | Some srt \<Rightarrow> applySort results srt)"

definition skip_stage :: "query_options \<Rightarrow> document list \<Rightarrow> document list" where
  "skip_stage opts results =
     (if js_truthy (o_skip opts)
      then js_slice results (to_integer (o_skip opts)) (int (length results))
      else results)"

definition limit_stage :: "query_options \<Rightarrow> document list \<Rightarrow> document list" where
  "limit_stage opts results =
     (if js_truthy (o_limit opts) then js_slice results 0 (to_integer (o_limit opts)) else results)"

definition projection_stage :: "query_options \<Rightarrow> document list \<Rightarrow> document list" where
  "projection_stage opts results =
     (case o_select opts of None \<Rightarrow> results | Some select \<Rightarrow> applyProjection results select)"

text \<open>\<open>QueryEngine.execute\<close> and \<open>QueryEngine.count\<close>.\<close>

definition execute ::
  "index_manager \<Rightarrow> storage \<Rightarrow> string \<Rightarrow> (string \<times> jsval) list \<Rightarrow> query_options
     \<Rightarrow> error + document list" where
  "execute im st collectionName flt opts =
    (case createQueryPlan im st collectionName flt of
       Inl e \<Rightarrow> Inl e
     | Inr p \<Rightarrow>
        (case executePlan im st collectionName p of
           Inl e \<Rightarrow> Inl e
         | Inr results \<Rightarrow>
            (case applyFilter results flt of
               Inl e \<Rightarrow> Inl e
             | Inr filtered \<Rightarrow>
                 Inr (projection_stage opts
                       (limit_stage opts (skip_stage opts (sort_stage opts filtered)))))))"

definition count ::
  "index_manager \<Rightarrow> storage \<Rightarrow> string \<Rightarrow> (string \<times> jsval) list \<Rightarrow> error + nat" where
  "count im st collectionName flt =
    (case execute im st collectionName flt (no_options\<lparr>o_select := Some [''_id'']\<rparr>) of
       Inl e \<Rightarrow> Inl e
     | Inr results \<Rightarrow> Inr (length results))"

section \<open>Result cache\<close>

text \<open>What the cache holds: the result list of a \<open>find\<close>, or the document of a \<open>findById\<close>.\<close>

datatype cached = Docs "document list" | Doc document

record CacheLayer =
  maxSize :: int
  cl_cache :: "(string \<times> cached) list"
  accessOrder :: "string list"

definition new_CacheLayer :: "int \<Rightarrow> CacheLayer" where
  "new_CacheLayer n = \<lparr>maxSize = n, cl_cache = [], accessOrder = []\<rparr>"

definition updateAccessOrder :: "CacheLayer \<Rightarrow> string \<Rightarrow> CacheLayer" where
  "updateAccessOrder cl key = cl\<lparr>accessOrder := remove1 key (accessOrder cl) @ [key]\<rparr>"

definition cache_get :: "CacheLayer \<Rightarrow> string \<Rightarrow> CacheLayer \<times> cached option" where
  "cache_get cl key =
    (if \<not> map_has (cl_cache cl) key then (cl, None)
     else (updateAccessOrder cl key, map_get (cl_cache cl) key))"

definition evictLRU :: "CacheLayer \<Rightarrow> CacheLayer" where
  "evictLRU cl =
    (case accessOrder cl of
       [] \<Rightarrow> cl
     | lruKey # rest \<Rightarrow> cl\<lparr>accessOrder := rest, cl_cache := map_delete (cl_cache cl) lruKey\<rparr>)"

definition cache_set :: "CacheLayer \<Rightarrow> string \<Rightarrow> cached \<Rightarrow> CacheLayer" where
  "cache_set cl key v =
    (let cl1 = (if int (length (cl_cache cl)) \<ge> maxSize cl \<and> \<not> map_has (cl_cache cl) key
                then evictLRU cl else cl)
     in updateAccessOrder (cl1\<lparr>cl_cache := map_set (cl_cache cl1) key v\<rparr>) key)"

definition invalidate :: "CacheLayer \<Rightarrow> string \<Rightarrow> CacheLayer" where
  "invalidate cl key =
     cl\<lparr>cl_cache := map_delete (cl_cache cl) key, accessOrder := remove1 key (accessOrder cl)\<rparr>"

section \<open>JSON text of a filter\<close>

definition hex_digit :: "nat \<Rightarrow> char" where
  "hex_digit n = ''0123456789abcdef'' ! n"

definition json_quote_char :: "char \<Rightarrow> string" where
  "json_quote_char c =
    (if c = CHR 0x22 then [CHR 0x5C, CHR 0x22]
     else if c = CHR 0x5C then [CHR 0x5C, CHR 0x5C]
     else if c = CHR 0x08 then [CHR 0x5C, CHR ''b'']
     else if c = CHR 0x0C then [CHR 0x5C, CHR ''f'']
     else if c = CHR 0x0A then [CHR 0x5C, CHR ''n'']
     else if c = CHR 0x0D then [CHR 0x5C, CHR ''r'']
     else if c = CHR 0x09 then [CHR 0x5C, CHR ''t'']
     else if (of_char c :: nat) < 32
          then [CHR 0x5C, CHR ''u'', CHR ''0'', CHR ''0'',
                hex_digit (of_char c div 16), hex_digit (of_char c mod 16)]
     else [c])"

definition json_quote :: "string \<Rightarrow> string" where
  "json_quote s = CHR 0x22 # concat (map json_quote_char s) @ [CHR 0x22]"

fun join_commas :: "string list \<Rightarrow> string" where
  "join_commas [] = []"
| "join_commas [x] = x"
| "join_commas (x # y # ys) = x @ CHR '','' # join_commas (y # ys)"

text \<open>\<open>JSON.stringify\<close>: \<open>None\<close> for \<open>undefined\<close>, whose properties are left out.\<close>

fun json :: "jsval \<Rightarrow> string option"
  and json_fields :: "(string \<times> jsval) list \<Rightarrow> string list" where
  "json JUndefined = None"
| "json (JNum n) = Some (js_String (JNum n))"
| "json (JStr s) = Some (json_quote s)"
| "json (JObj a fs) = Some (CHR ''{'' # join_commas (json_fields fs) @ [CHR ''}''])"
| "json_fields [] = []"
| "json_fields ((k, v) # fs) =
    (case json v of
       None \<Rightarrow> json_fields fs
     | Some t \<Rightarrow> (json_quote k @ CHR '':'' # t) # json_fields fs)"

definition json_object :: "(string \<times> jsval) list \<Rightarrow> string" where
  "json_object fs = CHR ''{'' # join_commas (json_fields fs) @ [CHR ''}'']"

section \<open>The database\<close>

text \<open>
  \<open>GhostDB\<close> with its collections (the memory engine holds the same collection objects),
  its index manager and its result cache (\<open>None\<close> when \<open>enableCache\<close> is \<open>false\<close>). The
  calls of \<open>updateIndexes\<close> are taken to have completed when the operation returns.
  Statistics, events, logging, persistence, backups and the memory estimate of
  \<open>createCollection\<close> are not modelled, nor are schemas that declare indexes. The clock
  reads of one call give the same time \<open>now\<close>; \<open>fresh\<close> is the text that \<open>_generateId\<close>
  returns.
\<close>

record db_options =
  enableCache :: bool
  cacheSize :: int

definition default_options :: db_options where
  "default_options = \<lparr>enableCache = True, cacheSize = 100\<rparr>"

record GhostDB =
  db_cache :: "CacheLayer option"
  db_collections :: storage
  db_indexes :: index_manager
  isInitialized :: bool

definition new_GhostDB :: "db_options \<Rightarrow> GhostDB" where
  "new_GhostDB opts =
     \<lparr>db_cache = (if enableCache opts
                   then Some (new_CacheLayer (if cacheSize opts \<noteq> 0 then cacheSize opts else 100))
                   else None),
      db_collections = [], db_indexes = [], isInitialized = False\<rparr>"

text \<open>\<open>initialize\<close> when there is no persisted data to load.\<close>

definition initialize :: "GhostDB \<Rightarrow> error + GhostDB" where
  "initialize db =
    (if isInitialized db then Inl (Error ''Database already initialized'')
     else Inr (db\<lparr>isInitialized := True\<rparr>))"

definition createCollection :: "GhostDB \<Rightarrow> string \<Rightarrow> schema \<Rightarrow> error + GhostDB" where
  "createCollection db name sch =
    (if map_has (db_collections db) name
     then Inl (Error (''Collection '' @ [CHR 0x27] @ name @ [CHR 0x27] @ '' already exists''))
     else Inr (db\<lparr>db_collections :=
                    map_set (db_collections db) name
                      \<lparr>c_name = name, c_schema = sch, c_data = [], c_metadata = JUndefined\<rparr>\<rparr>))"

definition not_initialized :: error where
  "not_initialized = Error ''Database not initialized. Call initialize() first.''"

definition getCollection :: "GhostDB \<Rightarrow> string \<Rightarrow> error + collection" where
  "getCollection db name =
    (case map_get (db_collections db) name of
       None \<Rightarrow> Inl (Error (''Collection '' @ [CHR 0x27] @ name @ [CHR 0x27] @ '' does not exist''))
     | Some c \<Rightarrow> Inr c)"

fun validate_required :: "string list \<Rightarrow> document \<Rightarrow> error option" where
  "validate_required [] doc = None"
| "validate_required (field # rest) doc =
    (if \<not> js_has doc field
     then Some (Error (''Required field '' @ [CHR 0x27] @ field @ [CHR 0x27] @ '' is missing''))
     else validate_required rest doc)"

fun validate_fields :: "(string \<times> string) list \<Rightarrow> document \<Rightarrow> error option" where
  "validate_fields [] doc = None"
| "validate_fields ((field, type) # rest) doc =
    (if js_has doc field \<and> js_typeof (js_get doc field) \<noteq> type
     then Some (Error (''Field '' @ [CHR 0x27] @ field @ [CHR 0x27] @ '' must be of type '' @
                       [CHR 0x27] @ type @ [CHR 0x27]))
     else validate_fields rest doc)"

definition validateDocument :: "schema \<Rightarrow> document \<Rightarrow> error option" where
  "validateDocument sch doc =
    (case (case s_required sch of None \<Rightarrow> None | Some req \<Rightarrow> validate_required req doc) of
       Some e \<Rightarrow> Some e
     | None \<Rightarrow> (case s_fields sch of None \<Rightarrow> None | Some fs \<Rightarrow> validate_fields fs doc))"

definition id_key :: "string \<Rightarrow> jsval \<Rightarrow> string" where
  "id_key collectionName docId = collectionName @ CHR '':'' # js_String docId"

definition find_key :: "string \<Rightarrow> (string \<times> jsval) list \<Rightarrow> string" where
  "find_key collectionName query = ''find:'' @ collectionName @ CHR '':'' # json_object query"

definition invalidate_id :: "GhostDB \<Rightarrow> string \<Rightarrow> jsval \<Rightarrow> GhostDB" where
  "invalidate_id db collectionName docId =
    (case db_cache db of
       None \<Rightarrow> db
     | Some cl \<Rightarrow> db\<lparr>db_cache := Some (invalidate cl (id_key collectionName docId))\<rparr>)"

definition set_data :: "GhostDB \<Rightarrow> collection \<Rightarrow> (jsval \<times> document) list \<Rightarrow> GhostDB" where
  "set_data db c d = db\<lparr>db_collections := map_set (db_collections db) (c_name c) (c\<lparr>c_data := d\<rparr>)\<rparr>"

text \<open>\<open>GhostDB.insert\<close> returns the stored document.\<close>

definition db_insert ::
  "GhostDB \<Rightarrow> string \<Rightarrow> document \<Rightarrow> int \<Rightarrow> string \<Rightarrow> error + GhostDB \<times> document" where
  "db_insert db collectionName document now fresh =
    (if \<not> isInitialized db then Inl not_initialized
     else case getCollection db collectionName of
       Inl e \<Rightarrow> Inl e
     | Inr c \<Rightarrow>
        (case validateDocument (c_schema c) document of
           Some e \<Rightarrow> Inl e
         | None \<Rightarrow>
            (let d1 = (if \<not> js_truthy (js_get document ''id'')
                       then js_set document ''id'' (JStr fresh) else document);
                 d2 = js_set d1 ''_id'' (js_get d1 ''id'');
                 d3 = js_set d2 ''_createdAt'' (JNum now);
                 d4 = js_set d3 ''_updatedAt'' (JNum now);
                 db1 = set_data db c (map_set (c_data c) (js_get d4 ''id'') d4)
             in case updateIndexes (db_indexes db1) collectionName d4 OpInsert None of
                  None \<Rightarrow> Inl NoReturn
                | Some im \<Rightarrow>
                    Inr (invalidate_id (db1\<lparr>db_indexes := im\<rparr>) collectionName (js_get d4 ''id''),
                         d4))))"

text \<open>
  \<open>GhostDB.find\<close> returns what the cache holds under the key of the collection and the
  query when it holds something, and else what the query engine gives, which it caches.
\<close>

definition find ::
  "GhostDB \<Rightarrow> string \<Rightarrow> (string \<times> jsval) list \<Rightarrow> query_options \<Rightarrow> error + GhostDB \<times> cached" where
  "find db collectionName query opts =
    (if \<not> isInitialized db then Inl not_initialized
     else
       (let hit = (case db_cache db of
                     None \<Rightarrow> None
                   | Some cl \<Rightarrow>
                      (case cache_get cl (find_key collectionName query) of
                         (cl', None) \<Rightarrow> None
                       | (cl', Some v) \<Rightarrow> Some (db\<lparr>db_cache := Some cl'\<rparr>, v)))
        in case hit of
             Some r \<Rightarrow> Inr r
           | None \<Rightarrow>
              (case getCollection db collectionName of
                 Inl e \<Rightarrow> Inl e
               | Inr c \<Rightarrow>
                  (case execute (db_indexes db) (db_collections db) collectionName query opts of
                     Inl e \<Rightarrow> Inl e
                   | Inr results \<Rightarrow>
                      Inr (case db_cache db of
                             None \<Rightarrow> db
                           | Some cl \<Rightarrow>
                               db\<lparr>db_cache :=
                                    Some (cache_set cl (find_key collectionName query) (Docs results))\<rparr>,
                           Docs results)))))"

text \<open>\<open>findById\<close>: the document, or \<open>null\<close> (\<open>None\<close>).\<close>

definition findById :: "GhostDB \<Rightarrow> string \<Rightarrow> jsval \<Rightarrow> error + GhostDB \<times> cached option" where
  "findById db collectionName docId =
    (if \<not> isInitialized db then Inl not_initialized
     else
       (let hit = (case db_cache db of
                     None \<Rightarrow> None
                   | Some cl \<Rightarrow>
                      (case cache_get cl (id_key collectionName docId) of
                         (cl', None) \<Rightarrow> None
                       | (cl', Some v) \<Rightarrow> Some (db\<lparr>db_cache := Some cl'\<rparr>, Some v)))
        in case hit of
             Some r \<Rightarrow> Inr r
           | None \<Rightarrow>
              (case getCollection db collectionName of
                 Inl e \<Rightarrow> Inl e
               | Inr c \<Rightarrow>
                  (case map_get (c_data c) docId of
                     None \<Rightarrow> Inr (db, None)
                   | Some doc \<Rightarrow>
                      Inr (case db_cache db of
                             None \<Rightarrow> db
                           | Some cl \<Rightarrow>
                               db\<lparr>db_cache :=
                                    Some (cache_set cl (id_key collectionName docId) (Doc doc))\<rparr>,
                           Some (Doc doc))))))"

text \<open>\<open>{...doc, ...updates, _updatedAt: now}\<close>.\<close>

definition spread :: "document \<Rightarrow> document \<Rightarrow> document" where
  "spread doc updates = foldl (\<lambda>d kv. js_set d (fst kv) (snd kv)) doc updates"

fun update_loop ::
  "GhostDB \<Rightarrow> string \<Rightarrow> document list \<Rightarrow> document \<Rightarrow> int \<Rightarrow> error + GhostDB \<times> document list" where
  "update_loop db collectionName [] updates now = Inr (db, [])"
| "update_loop db collectionName (doc # docs) updates now =
    (case getCollection db collectionName of
       Inl e \<Rightarrow> Inl e
     | Inr c \<Rightarrow>
        (let updated = js_set (spread doc updates) ''_updatedAt'' (JNum now);
             db1 = set_data db c (map_set (c_data c) (js_get doc ''id'') updated)
         in case updateIndexes (db_indexes db1) collectionName updated OpUpdate (Some doc) of
              None \<Rightarrow> Inl NoReturn
            | Some im \<Rightarrow>
               (case update_loop
                       (invalidate_id (db1\<lparr>db_indexes := im\<rparr>) collectionName (js_get doc ''id''))
                       collectionName docs updates now of
                  Inl e \<Rightarrow> Inl e
                | Inr (db', rest) \<Rightarrow> Inr (db', updated # rest))))"

text \<open>
  \<open>GhostDB.update\<close> returns the updated documents. Iterating over a cached document that is
  not a list throws.
\<close>

definition update ::
  "GhostDB \<Rightarrow> string \<Rightarrow> (string \<times> jsval) list \<Rightarrow> document \<Rightarrow> int \<Rightarrow> error + GhostDB \<times> document list" where
  "update db collectionName query updates now =
    (if \<not> isInitialized db then Inl not_initialized
     else case find db collectionName query no_options of
       Inl e \<Rightarrow> Inl e
     | Inr (db1, Doc d) \<Rightarrow> Inl TypeError
     | Inr (db1, Docs documents) \<Rightarrow> update_loop db1 collectionName documents updates now)"

fun delete_docs :: "GhostDB \<Rightarrow> string \<Rightarrow> document list \<Rightarrow> error + GhostDB" where
  "delete_docs db collectionName [] = Inr db"
| "delete_docs db collectionName (doc # docs) =
    (case getCollection db collectionName of
       Inl e \<Rightarrow> Inl e
     | Inr c \<Rightarrow>
        (let db1 = set_data db c (map_delete (c_data c) (js_get doc ''id''))
         in case updateIndexes (db_indexes db1) collectionName doc OpDelete None of
              None \<Rightarrow> Inl NoReturn
            | Some im \<Rightarrow>
                delete_docs
                  (invalidate_id (db1\<lparr>db_indexes := im\<rparr>) collectionName (js_get doc ''id''))
                  collectionName docs))"

text \<open>\<open>GhostDB.delete\<close> returns the number of documents it found.\<close>

definition db_delete ::
  "GhostDB \<Rightarrow> string \<Rightarrow> (string \<times> jsval) list \<Rightarrow> error + GhostDB \<times> nat" where
  "db_delete db collectionName query =
    (if \<not> isInitialized db then Inl not_initialized
     else case find db collectionName query no_options of
       Inl e \<Rightarrow> Inl e
     | Inr (db1, Doc d) \<Rightarrow>
         (case getCollection db1 collectionName of Inl e \<Rightarrow> Inl e | Inr c \<Rightarrow> Inl TypeError)
     | Inr (db1, Docs documents) \<Rightarrow>
         (case getCollection db1 collectionName of
            Inl e \<Rightarrow> Inl e
          | Inr c \<Rightarrow>
             (case delete_docs db1 collectionName documents of
                Inl e \<Rightarrow> Inl e
              | Inr db2 \<Rightarrow> Inr (db2, length documents))))"

definition createIndex ::
  "GhostDB \<Rightarrow> string \<Rightarrow> string \<Rightarrow> index_options \<Rightarrow> error + GhostDB" where
  "createIndex db collectionName field opts =
    (case getCollection db collectionName of
       Inl e \<Rightarrow> Inl e
     | Inr c \<Rightarrow>
        (case im_createIndex (db_indexes db) (db_collections db) collectionName field opts of
           Inl e \<Rightarrow> Inl e
         | Inr im \<Rightarrow> Inr (db\<lparr>db_indexes := im\<rparr>)))"

text \<open>The count of the query engine on the state of the database.\<close>

definition db_count :: "GhostDB \<Rightarrow> string \<Rightarrow> (string \<times> jsval) list \<Rightarrow> error + nat" where
  "db_count db collectionName query = count (db_indexes db) (db_collections db) collectionName query"

section \<open>Probe paths and table invariants\<close>

text \<open>
  Where the probing loop of \<open>insert\<close> ends when it ends within \<open>n\<close> steps while it still
  carries the new entry, that is before any swap: at an empty bucket, with the probe length
  reached there, or at a bucket that holds the key, with the position of the key in it.
\<close>

datatype probe_end = AtEmpty nat nat | AtKey nat nat

fun probe :: "HashIndex \<Rightarrow> jsval \<Rightarrow> nat \<Rightarrow> nat \<Rightarrow> nat \<Rightarrow> probe_end option" where
  "probe h key i psl 0 = None"
| "probe h key i psl (Suc n) =
    (if length (buckets h) \<le> i then None
     else if buckets h ! i = [] then Some (AtEmpty i psl)
     else (case findIndex (\<lambda>e. js_strict_eq (e_key e) key) (buckets h ! i) of
             Some pos \<Rightarrow> Some (AtKey i pos)
           | None \<Rightarrow>
               if psl > e_psl (hd (buckets h ! i)) then None
               else probe h key (next_index h i) (psl + 1) n))"

text \<open>Every bucket holds at most one entry.\<close>

definition single_entries :: "HashIndex \<Rightarrow> bool" where
  "single_entries h = list_all (\<lambda>b. length b \<le> 1) (buckets h)"

text \<open>
  No holes: the entry that follows an empty bucket, if there is one, sits in its ideal bucket
  (its probe length is 0).
\<close>

fun no_holes_below :: "HashIndex \<Rightarrow> nat \<Rightarrow> bool" where
  "no_holes_below h 0 = True"
| "no_holes_below h (Suc b) =
    ((buckets h ! b = [] \<longrightarrow>
        buckets h ! next_index h b = [] \<or> e_psl (hd (buckets h ! next_index h b)) = 0)
     \<and> no_holes_below h b)"

definition no_holes :: "HashIndex \<Rightarrow> bool" where
  "no_holes h = no_holes_below h (length (buckets h))"

section \<open>Example states\<close>

text \<open>Small tables and databases on which the theorems below are run.\<close>

definition ent :: "string \<Rightarrow> string \<Rightarrow> nat \<Rightarrow> entry" where
  "ent k v p = \<lparr>e_key = JStr k, e_value = JStr v, e_hash = hash (JStr k), e_psl = p\<rparr>"

text \<open>A table of four buckets after the inserts of \<open>a\<close>, \<open>b\<close>, \<open>c\<close>, and after \<open>d\<close> as well.\<close>

definition hi_abc :: HashIndex where
  "hi_abc =
     \<lparr>capacity = 4, hsize = 3,
      buckets = [[ent ''a'' ''va'' 0], [ent ''b'' ''vb'' 0], [ent ''c'' ''vc'' 0], []],
      resizeLock = False, maxProbeLength = 0\<rparr>"



text \<open>A database with the default options, initialized, with one empty collection \<open>C\<close>.\<close>

definition no_schema :: schema where
  "no_schema = \<lparr>s_required = None, s_fields = None\<rparr>"

definition dbC :: GhostDB where
  "dbC =
     \<lparr>db_cache = Some (new_CacheLayer 100),
      db_collections = [(''C'', \<lparr>c_name = ''C'', c_schema = no_schema, c_data = [],
                                c_metadata = JUndefined\<rparr>)],
      db_indexes = [], isInitialized = True\<rparr>"

text \<open>
  States of that database: the documents of \<open>C\<close>, the indexes on \<open>C\<close> and the entries of the
  cache (in the order of their last use).
\<close>

definition db_state ::
  "(jsval \<times> document) list \<Rightarrow> (string \<times> index) list \<Rightarrow> (string \<times> cached) list \<Rightarrow> GhostDB" where
  "db_state docs ixs cch =
     \<lparr>db_cache = Some \<lparr>maxSize = 100, cl_cache = cch, accessOrder = map fst cch\<rparr>,
      db_collections = [(''C'', \<lparr>c_name = ''C'', c_schema = no_schema, c_data = docs,
                                c_metadata = JUndefined\<rparr>)],
      db_indexes = (if ixs = [] then [] else [(''C'', ixs)]), isInitialized = True\<rparr>"

text \<open>The document that \<open>insert\<close> stores for \<open>{f: v}\<close> under the generated id \<open>i\<close> at time \<open>t\<close>.\<close>

definition stored :: "string \<Rightarrow> jsval \<Rightarrow> string \<Rightarrow> int \<Rightarrow> document" where
  "stored f v i t =
     [(f, v), (''id'', JStr i), (''_id'', JStr i), (''_createdAt'', JNum t), (''_updatedAt'', JNum t)]"

text \<open>
  Index bundles with the default options (both kinds, sharded): a fresh shard that holds one
  entry in bucket \<open>b\<close>, the sharded index whose shard \<open>i\<close> is \<open>h\<close>, and a tree of order 128 that
  is one leaf.
\<close>

definition default_index_options :: "bool \<Rightarrow> index_options" where
  "default_index_options u = \<lparr>io_type = JUndefined, io_sharded = True, io_unique = u\<rparr>"

definition shard1 :: "jsval \<Rightarrow> jsval \<Rightarrow> nat \<Rightarrow> HashIndex" where
  "shard1 k v b =
     \<lparr>capacity = 16384, hsize = 1,
      buckets = (replicate 16384 [])[b := [\<lparr>e_key = k, e_value = v, e_hash = hash k, e_psl = 0\<rparr>]],
      resizeLock = False, maxProbeLength = 0\<rparr>"

definition shard0 :: "nat \<Rightarrow> HashIndex" where
  "shard0 b =
     \<lparr>capacity = 16384, hsize = 0, buckets = (replicate 16384 [])[b := []],
      resizeLock = False, maxProbeLength = 0\<rparr>"

definition sharded1 :: "nat \<Rightarrow> HashIndex \<Rightarrow> hash_index" where
  "sharded1 i h =
     ShardedHash \<lparr>shardCount = 16, shards = (replicate 16 (new_HashIndex INITIAL_CAPACITY))[i := h]\<rparr>"

definition leaf1 :: "jsval list \<Rightarrow> jsval list \<Rightarrow> BPlusTree" where
  "leaf1 ks vs =
     \<lparr>t_order = 128, t_root = 0, t_firstLeaf = 0, t_size = length ks, t_height = 1,
      t_nodes = [\<lparr>n_isLeaf = True, n_order = 128, n_keys = ks, n_values = vs, n_children = [],
                  n_next = None, n_parent = None\<rparr>]\<rparr>"

definition ix_bundle :: "string \<Rightarrow> bool \<Rightarrow> hash_index \<Rightarrow> BPlusTree \<Rightarrow> index" where
  "ix_bundle f u h t =
     \<lparr>ix_fieldName = f, ix_hash = Some h, ix_btree = Some t, ix_unique = u, ix_sharded = True\<rparr>"

definition fresh_bundle :: "string \<Rightarrow> bool \<Rightarrow> index" where
  "fresh_bundle f u = ix_bundle f u (ShardedHash (new_ShardedHashIndex 16)) (new_BPlusTree 128)"

text \<open>
  The pairs (document[field], document.id) of the live documents of a collection that carry
  the field, which the specification compares the indexes with.
\<close>

definition live_pairs :: "GhostDB \<Rightarrow> string \<Rightarrow> string \<Rightarrow> (jsval \<times> jsval) list" where
  "live_pairs db c f =
     map (\<lambda>d. (js_get d f, js_get d ''id''))
       (filter (\<lambda>d. js_has d f) (storage_scan (db_collections db) c))"

text \<open>The filters of the examples.\<close>

definition x_is_1 :: "(string \<times> jsval) list" where
  "x_is_1 = [(''x'', JNum 1)]"

definition f_gt_5 :: "(string \<times> jsval) list" where
  "f_gt_5 = [(''f'', JObj 0 [(''$gt'', JNum 5)])]"

definition f_gte_5 :: "(string \<times> jsval) list" where
  "f_gte_5 = [(''f'', JObj 0 [(''$gte'', JNum 5)])]"

text \<open>The unique index on \<open>u\<close> and the two inserts of \<open>{u: "a"}\<close>.\<close>

definition dbU :: GhostDB where
  "dbU = db_state [] [(''u'', fresh_bundle ''u'' True)] []"

definition dbU1 :: GhostDB where
  "dbU1 = db_state [(JStr ''i1'', stored ''u'' (JStr ''a'') ''i1'' 5)]
            [(''u'', ix_bundle ''u'' True (sharded1 12 (shard1 (JStr ''a'') (JStr ''i1'') 10540))
                       (leaf1 [JStr ''a''] [JStr ''i1'']))] []"

definition dbU2 :: GhostDB where
  "dbU2 = db_state [(JStr ''i1'', stored ''u'' (JStr ''a'') ''i1'' 5),
                    (JStr ''i2'', stored ''u'' (JStr ''a'') ''i2'' 6)]
            [(''u'', ix_bundle ''u'' True (sharded1 12 (shard1 (JStr ''a'') (JStr ''i2'') 10540))
                       (leaf1 [JStr ''a''] [JStr ''i2'']))] []"

text \<open>The index on \<open>f\<close>: two documents with \<open>f = 7\<close>, then the first one deleted.\<close>

definition dbF :: GhostDB where
  "dbF = db_state [] [(''f'', fresh_bundle ''f'' False)] []"

definition dbF1 :: GhostDB where
  "dbF1 = db_state [(JStr ''i1'', stored ''f'' (JNum 7) ''i1'' 5)]
            [(''f'', ix_bundle ''f'' False (sharded1 6 (shard1 (JNum 7) (JStr ''i1'') 9206))
                       (leaf1 [JNum 7] [JStr ''i1'']))] []"

definition dbF2 :: GhostDB where
  "dbF2 = db_state [(JStr ''i1'', stored ''f'' (JNum 7) ''i1'' 5),
                    (JStr ''i2'', stored ''f'' (JNum 7) ''i2'' 6)]
            [(''f'', ix_bundle ''f'' False (sharded1 6 (shard1 (JNum 7) (JStr ''i2'') 9206))
                       (leaf1 [JNum 7] [JStr ''i2'']))] []"

definition dbF3 :: GhostDB where
  "dbF3 = db_state [(JStr ''i2'', stored ''f'' (JNum 7) ''i2'' 6)]
            [(''f'', ix_bundle ''f'' False (sharded1 6 (shard0 9206)) (leaf1 [] []))]
            [(find_key ''C'' [(''id'', JStr ''i1'')], Docs [stored ''f'' (JNum 7) ''i1'' 5])]"

text \<open>The index on \<open>f\<close> and one document with \<open>f = 10\<close>.\<close>

definition dbF10 :: GhostDB where
  "dbF10 = db_state [(JStr ''i1'', stored ''f'' (JNum 10) ''i1'' 5)]
             [(''f'', ix_bundle ''f'' False (sharded1 4 (shard1 (JNum 10) (JStr ''i1'') 10820))
                        (leaf1 [JNum 10] [JStr ''i1'']))] []"

definition dbF10_cached :: GhostDB where
  "dbF10_cached = db_state [(JStr ''i1'', stored ''f'' (JNum 10) ''i1'' 5)]
             [(''f'', ix_bundle ''f'' False (sharded1 4 (shard1 (JNum 10) (JStr ''i1'') 10820))
                        (leaf1 [JNum 10] [JStr ''i1'']))]
             [(find_key ''C'' f_gt_5, Docs [])]"

text \<open>No index: a query, an insert that the query matches, and two documents.\<close>

definition dbC_found :: GhostDB where
  "dbC_found = db_state [] [] [(find_key ''C'' x_is_1, Docs [])]"

definition dbC_inserted :: GhostDB where
  "dbC_inserted = db_state [(JStr ''i1'', stored ''x'' (JNum 1) ''i1'' 5)] []
                    [(find_key ''C'' x_is_1, Docs [])]"

definition dbC2 :: GhostDB where
  "dbC2 = db_state [(JStr ''i1'', stored ''x'' (JNum 1) ''i1'' 5),
                    (JStr ''i2'', stored ''x'' (JNum 2) ''i2'' 6)] [] []"

definition dbC2_cached :: GhostDB where
  "dbC2_cached = db_state [(JStr ''i1'', stored ''x'' (JNum 1) ''i1'' 5),
                           (JStr ''i2'', stored ''x'' (JNum 2) ''i2'' 6)] []
                   [(find_key ''C'' [],
                     Docs [stored ''x'' (JNum 1) ''i1'' 5, stored ''x'' (JNum 2) ''i2'' 6])]"

text \<open>
  The table of four buckets widened by the insert of \<open>e\<close>, after the delete of \<open>e\<close>.
\<close>

definition hi_abcd_wide :: HashIndex where
  "hi_abcd_wide =
     \<lparr>capacity = 8, hsize = 4,
      buckets = [[], [], [ent ''c'' ''vc'' 0], [ent ''d'' ''vd'' 0],
                 [ent ''a'' ''va'' 0], [ent ''b'' ''vb'' 0], [], []],
      resizeLock = False, maxProbeLength = 0\<rparr>"

text \<open>
  A table of eight buckets after the inserts of \<open>e\<close>, \<open>f\<close>, \<open>c\<close> (ideal buckets 0, 1, 2);
  after the insert of \<open>m\<close> (ideal bucket 0), which swaps twice; and after the delete of \<open>m\<close>.
\<close>

definition hi_efc :: HashIndex where
  "hi_efc =
     \<lparr>capacity = 8, hsize = 3,
      buckets = [[ent ''e'' ''ve'' 0], [ent ''f'' ''vf'' 0], [ent ''c'' ''vc'' 0], [], [], [], [], []],
      resizeLock = False, maxProbeLength = 0\<rparr>"

definition hi_efcm :: HashIndex where
  "hi_efcm =
     \<lparr>capacity = 8, hsize = 4,
      buckets = [[ent ''e'' ''ve'' 0], [ent ''m'' ''vm'' 0], [ent ''f'' ''vf'' 0],
                 [ent ''c'' ''vc'' 1], [], [], [], []],
      resizeLock = False, maxProbeLength = 1\<rparr>"

definition hi_efc_after :: HashIndex where
  "hi_efc_after =
     \<lparr>capacity = 8, hsize = 3,
      buckets = [[ent ''e'' ''ve'' 0], [], [ent ''f'' ''vf'' 0], [ent ''c'' ''vc'' 1], [], [], [], []],
      resizeLock = False, maxProbeLength = 1\<rparr>"

text \<open>A tree of order 4 after the inserts of 1 and 2, and after the insert of 3.\<close>

definition t12 :: BPlusTree where
  "t12 =
     \<lparr>t_order = 4, t_root = 0, t_firstLeaf = 0, t_size = 2, t_height = 1,
      t_nodes = [\<lparr>n_isLeaf = True, n_order = 4, n_keys = [JNum 1, JNum 2],
                  n_values = [JStr ''a'', JStr ''b''], n_children = [], n_next = None,
                  n_parent = None\<rparr>]\<rparr>"

definition t123 :: BPlusTree where
  "t123 =
     \<lparr>t_order = 4, t_root = 2, t_firstLeaf = 0, t_size = 3, t_height = 2,
      t_nodes = [\<lparr>n_isLeaf = True, n_order = 4, n_keys = [JNum 1], n_values = [JStr ''a''],
                  n_children = [], n_next = Some 1, n_parent = Some 2\<rparr>,
                 \<lparr>n_isLeaf = True, n_order = 4, n_keys = [JNum 2, JNum 3],
                  n_values = [JStr ''b'', JStr ''c''], n_children = [], n_next = None,
                  n_parent = Some 2\<rparr>,
                 \<lparr>n_isLeaf = False, n_order = 4, n_keys = [JNum 2], n_values = [],
                  n_children = [0, 1], n_next = None, n_parent = None\<rparr>]\<rparr>"

text \<open>The bundle on \<open>f\<close> of \<open>dbF1\<close>, its shard 6 and its tree, and the bundle of \<open>dbF2\<close>.\<close>

definition shard_7 :: HashIndex where
  "shard_7 = shard1 (JNum 7) (JStr ''i1'') 9206"

definition sharded_7 :: ShardedHashIndex where
  "sharded_7 = \<lparr>shardCount = 16, shards = (replicate 16 (new_HashIndex INITIAL_CAPACITY))[6 := shard_7]\<rparr>"

definition bundle_7 :: index where
  "bundle_7 = ix_bundle ''f'' False (ShardedHash sharded_7) (leaf1 [JNum 7] [JStr ''i1''])"

definition bundle_7_second :: index where
  "bundle_7_second =
     ix_bundle ''f'' False (sharded1 6 (shard1 (JNum 7) (JStr ''i2'') 9206)) (leaf1 [JNum 7] [JStr ''i2''])"

section \<open>Evaluation lemmas\<close>

lemma replicate_4_8: "replicate 4 x = [x, x, x, x]" "replicate 8 x = [x, x, x, x, x, x, x, x]"
  by (simp_all add: numeral_eq_Suc)

lemma bucket_of_4:
  "unat (hash (JStr ''a'')) AND 3 = 0" "unat (hash (JStr ''b'')) AND 3 = 1"
  "unat (hash (JStr ''c'')) AND 3 = 2" "unat (hash (JStr ''d'')) AND 3 = 3"
  by (simp_all add: hash_def fnv_step_def)


lemmas hi_eval = insert_def needs_resize_def LOAD_FACTOR_def insert_probe_def getBucketIndex_def
  insert_loop.simps next_index_def resize_def ent_def

lemma new_HashIndex_4:
  "new_HashIndex 4 =
     \<lparr>capacity = 4, hsize = 0, buckets = [[], [], [], []], resizeLock = False, maxProbeLength = 0\<rparr>"
  by (simp add: new_HashIndex_def nextPowerOfTwo_def Let_def replicate_4_8)

lemma hi_abc_reached:
  "Option.bind (Option.bind (insert (new_HashIndex 4) (JStr ''a'') (JStr ''va''))
     (\<lambda>h. insert h (JStr ''b'') (JStr ''vb''))) (\<lambda>h. insert h (JStr ''c'') (JStr ''vc'')) = Some hi_abc"
  by (simp add: new_HashIndex_4 hi_eval bucket_of_4 hi_abc_def)



lemma dbC_reached:
  "(case initialize (new_GhostDB default_options) of
      Inl e \<Rightarrow> Inl e
    | Inr db \<Rightarrow> createCollection db ''C'' no_schema) = Inr dbC"
  by (simp add: dbC_def initialize_def new_GhostDB_def default_options_def createCollection_def
      map_has_def)

lemmas db_eval = find_def db_insert_def getCollection_def validateDocument_def set_data_def
  updateIndexes_def invalidate_id_def id_key_def find_key_def json_object_def json_quote_def
  json_quote_char_def cache_get_def cache_set_def map_has_def invalidate_def
  updateAccessOrder_def evictLRU_def new_CacheLayer_def execute_def executePlan_def
  storage_scan_def hasIndex_def sort_stage_def skip_stage_def limit_stage_def
  projection_stage_def no_options_def no_schema_def Let_def digits.simps

lemma shard_and_bucket:
  "unat (hash (JStr ''a'')) mod 16 = 12" "unat (hash (JStr ''a'')) AND 16383 = 10540"
  "unat (hash (JNum 7)) mod 16 = 6" "unat (hash (JNum 7)) AND 16383 = 9206"
  "unat (hash (JNum 10)) mod 16 = 4" "unat (hash (JNum 10)) AND 16383 = 10820"
  "unat (hash (JObj 0 [(''$gt'', JNum 5)])) mod 16 = 15"
  "unat (hash (JObj 0 [(''$gt'', JNum 5)])) AND 16383 = 11423"
  by (simp_all add: hash_def fnv_step_def digits.simps)

lemmas im_eval = createIndex_def im_createIndex_def buildIndex_def new_index_def
  new_ShardedHashIndex_def new_BPlusTree_def new_node_def INITIAL_CAPACITY_def DEFAULT_ORDER_def
  new_HashIndex_def nextPowerOfTwo_def updateIndexes_def updateIndex_def addToIndex_def
  removeFromIndex_def hi_insert_def hi_delete_def hi_get_def sh_insert_def sh_get_def
  sh_delete_def getShard_def bt_insert_def findLeaf_def findLeaf_loop.simps findKeyPosition_def
  findKeyPosition_loop.simps set_node_def isFull_def splice_in_def splice_out_def js_lt_def
  js_le_def js_gt_def js_ge_def is_less_than_def lookup_def get_def get_loop.simps count_def
  db_count_def applyProjection_def js_has_def storage_get_def shard1_def shard0_def sharded1_def
  leaf1_def ix_bundle_def fresh_bundle_def db_state_def stored_def default_index_options_def
  insert_def needs_resize_def LOAD_FACTOR_def insert_probe_def getBucketIndex_def
  insert_loop.simps next_index_def starts_with_dollar_def db_delete_def delete_def
  delete_loop.simps backwardShift_def backwardShift_loop.simps bt_delete_def isUnderfull_def
  minKeys_def x_is_1_def f_gt_5_def f_gte_5_def

lemma dbC_is_db_state: "dbC = db_state [] [] []"
  by (simp add: dbC_def db_state_def new_CacheLayer_def)

lemma dbU_reached: "createIndex dbC ''C'' ''u'' (default_index_options True) = Inr dbU"
  by (simp add: dbC_def dbU_def db_eval im_eval)

lemma dbF_reached: "createIndex dbC ''C'' ''f'' (default_index_options False) = Inr dbF"
  by (simp add: dbC_def dbF_def db_eval im_eval)

lemma dbF1_reached: "db_insert dbF ''C'' [(''f'', JNum 7)] 5 ''i1'' = Inr (dbF1, stored ''f'' (JNum 7) ''i1'' 5)"
  by (simp add: dbF_def dbF1_def db_eval im_eval shard_and_bucket)

lemma dbF2_reached: "db_insert dbF1 ''C'' [(''f'', JNum 7)] 6 ''i2'' = Inr (dbF2, stored ''f'' (JNum 7) ''i2'' 6)"
  by (simp add: dbF1_def dbF2_def db_eval im_eval shard_and_bucket)

lemma dbF3_reached: "db_delete dbF2 ''C'' [(''id'', JStr ''i1'')] = Inr (dbF3, 1)"
  by (simp add: dbF2_def dbF3_def db_eval im_eval shard_and_bucket)

lemma dbF10_reached: "db_insert dbF ''C'' [(''f'', JNum 10)] 5 ''i1'' = Inr (dbF10, stored ''f'' (JNum 10) ''i1'' 5)"
  by (simp add: dbF_def dbF10_def db_eval im_eval shard_and_bucket)

lemma dbC2_reached:
  "db_insert dbC ''C'' [(''x'', JNum 1)] 5 ''i1''
     = Inr (db_state [(JStr ''i1'', stored ''x'' (JNum 1) ''i1'' 5)] [] [], stored ''x'' (JNum 1) ''i1'' 5)"
  "db_insert (db_state [(JStr ''i1'', stored ''x'' (JNum 1) ''i1'' 5)] [] []) ''C'' [(''x'', JNum 2)] 6 ''i2''
     = Inr (dbC2, stored ''x'' (JNum 2) ''i2'' 6)"
  by (simp_all add: dbC_def dbC2_def db_eval im_eval)

section \<open>The load factor that triggers a rehash\<close>








section \<open>The result cache and the options of a query\<close>

lemma map_get_map_set: "map_get (map_set m k v) k = Some v"
  by (induction m) auto

text \<open>
  C9: with the result cache enabled, when a \<open>find\<close> returns, the next \<open>find\<close> on the same
  collection with the same filter returns the same result whatever its options are, and
  leaves documents and indexes as they are.
\<close>

theorem C9_second_find_returns_cached:
  assumes "db_cache db \<noteq> None" and "find db c q opts1 = Inr (db1, r)"
  shows "\<exists>db2. find db1 c q opts2 = Inr (db2, r)
           \<and> db_collections db2 = db_collections db1 \<and> db_indexes db2 = db_indexes db1"
  using assms
  by (auto simp: find_def cache_get_def cache_set_def map_has_def map_get_map_set
      updateAccessOrder_def Let_def
      split: if_splits option.splits sum.splits prod.splits)

section \<open>A limit of zero\<close>



lemma dbC2_cached_reached:
  "find dbC2 ''C'' [] no_options
     = Inr (dbC2_cached, Docs [stored ''x'' (JNum 1) ''i1'' 5, stored ''x'' (JNum 2) ''i2'' 6])"
  by (simp add: dbC2_def dbC2_cached_def db_eval im_eval)

theorem C9_witness:
  "db_cache dbC2 \<noteq> None
   \<and> find dbC2 ''C'' [] no_options
       = Inr (dbC2_cached, Docs [stored ''x'' (JNum 1) ''i1'' 5, stored ''x'' (JNum 2) ''i2'' 6])
   \<and> (\<exists>db2. find dbC2_cached ''C'' [] (no_options\<lparr>o_limit := JNum 1\<rparr>)
                = Inr (db2, Docs [stored ''x'' (JNum 1) ''i1'' 5, stored ''x'' (JNum 2) ''i2'' 6]))"
proof -
  have enabled: "db_cache dbC2 \<noteq> None"
    by (simp add: dbC2_def db_state_def)
  from C9_second_find_returns_cached [OF enabled dbC2_cached_reached]
  show ?thesis
    using enabled dbC2_cached_reached by blast
qed

section \<open>Mutations and the result cache\<close>

text \<open>
  C3 fails on the code: on the database \<open>dbC\<close> (cache enabled, as by default) a \<open>find\<close> for
  \<open>{x: 1}\<close> returns the empty list; the insert of \<open>{x: 1}\<close> succeeds and stores a document that
  the filter matches; the same \<open>find\<close> afterwards still returns the empty list, from the
  cache, which the insert has not touched.
\<close>

theorem C3_find_after_insert_is_stale:
  "find dbC ''C'' x_is_1 no_options = Inr (dbC_found, Docs [])
   \<and> db_insert dbC_found ''C'' [(''x'', JNum 1)] 5 ''i1''
       = Inr (dbC_inserted, stored ''x'' (JNum 1) ''i1'' 5)
   \<and> storage_scan (db_collections dbC_inserted) ''C'' = [stored ''x'' (JNum 1) ''i1'' 5]
   \<and> matchesFilter (stored ''x'' (JNum 1) ''i1'' 5) x_is_1 = Inr True
   \<and> find dbC_inserted ''C'' x_is_1 no_options = Inr (dbC_inserted, Docs [])"
  by (simp add: dbC_def dbC_found_def dbC_inserted_def db_eval im_eval)

section \<open>The unique flag of an index\<close>

text \<open>
  C2 fails on the code: with the index on \<open>u\<close> created with \<open>unique\<close> set (database \<open>dbU\<close>),
  the first insert of \<open>{u: "a"}\<close> succeeds, the second insert of \<open>{u: "a"}\<close> succeeds as well
  and stores a second document, the indexes keep one entry for \<open>"a"\<close>, now with the id of the
  second document, and the count of the collection with the empty filter is 2.
\<close>

theorem C2_duplicate_insert_succeeds:
  "createIndex dbC ''C'' ''u'' (default_index_options True) = Inr dbU
   \<and> db_insert dbU ''C'' [(''u'', JStr ''a'')] 5 ''i1'' = Inr (dbU1, stored ''u'' (JStr ''a'') ''i1'' 5)
   \<and> db_insert dbU1 ''C'' [(''u'', JStr ''a'')] 6 ''i2'' = Inr (dbU2, stored ''u'' (JStr ''a'') ''i2'' 6)
   \<and> db_count dbU2 ''C'' [] = Inr 2"
  using dbU_reached
  by (simp add: dbU_def dbU1_def dbU2_def db_eval im_eval shard_and_bucket)

section \<open>Range criteria on an indexed field\<close>

text \<open>
  C4 fails on the code: with an index on \<open>f\<close> and one document with \<open>f = 10\<close> (database
  \<open>dbF10\<close>), the plan for \<open>{f: {$gt: 5}}\<close> is an equality lookup of the criterion object in
  the hash index and \<open>find\<close> returns the empty list, although the filter matches the
  document; the plan for \<open>{f: {$gte: 5}}\<close> throws a TypeError, and so does \<open>find\<close>.
\<close>

theorem C4_range_criteria_on_indexed_field:
  "createQueryPlan (db_indexes dbF10) (db_collections dbF10) ''C'' f_gt_5
     = Inr (IndexEquality ''f'' (JObj 0 [(''$gt'', JNum 5)]))
   \<and> find dbF10 ''C'' f_gt_5 no_options = Inr (dbF10_cached, Docs [])
   \<and> matchesFilter (stored ''f'' (JNum 10) ''i1'' 5) f_gt_5 = Inr True
   \<and> createQueryPlan (db_indexes dbF10) (db_collections dbF10) ''C'' f_gte_5 = Inl TypeError
   \<and> find dbF10 ''C'' f_gte_5 no_options = Inl TypeError
   \<and> matchesFilter (stored ''f'' (JNum 10) ''i1'' 5) f_gte_5 = Inr True"
  by (simp add: dbF10_def dbF10_cached_def db_eval im_eval shard_and_bucket)

section \<open>What an index holds\<close>

lemma bt_entries_leaf1:
  "bt_entries (leaf1 [k] [v]) = Some [(k, v)]" "bt_entries (leaf1 [] []) = Some []"
  by (simp_all add: bt_entries_def leaf1_def chain_pairs.simps leaf_pairs_def nth_or_undefined_def)

text \<open>
  C1, as the claim states it, fails: after the inserts of two documents with \<open>f = 7\<close> both are
  live, and the tree of the bundle on \<open>f\<close> holds one pair, with the id of the second
  document; after the delete of the first document the second is still live and the tree
  holds nothing.
\<close>

theorem C1_counterexample:
  "db_insert dbF ''C'' [(''f'', JNum 7)] 5 ''i1'' = Inr (dbF1, stored ''f'' (JNum 7) ''i1'' 5)
   \<and> db_insert dbF1 ''C'' [(''f'', JNum 7)] 6 ''i2'' = Inr (dbF2, stored ''f'' (JNum 7) ''i2'' 6)
   \<and> db_indexes dbF2 = [(''C'', [(''f'', ix_bundle ''f'' False
           (sharded1 6 (shard1 (JNum 7) (JStr ''i2'') 9206)) (leaf1 [JNum 7] [JStr ''i2'']))])]
   \<and> live_pairs dbF2 ''C'' ''f'' = [(JNum 7, JStr ''i1''), (JNum 7, JStr ''i2'')]
   \<and> bt_entries (leaf1 [JNum 7] [JStr ''i2'']) = Some [(JNum 7, JStr ''i2'')]
   \<and> set [(JNum 7, JStr ''i2'')] \<noteq> set (live_pairs dbF2 ''C'' ''f'')
   \<and> db_delete dbF2 ''C'' [(''id'', JStr ''i1'')] = Inr (dbF3, 1)
   \<and> db_indexes dbF3 = [(''C'', [(''f'', ix_bundle ''f'' False (sharded1 6 (shard0 9206)) (leaf1 [] []))])]
   \<and> live_pairs dbF3 ''C'' ''f'' = [(JNum 7, JStr ''i2'')]
   \<and> bt_entries (leaf1 [] []) = Some []"
  using dbF1_reached dbF2_reached dbF3_reached bt_entries_leaf1
  by (simp add: live_pairs_def dbF2_def dbF3_def db_state_def storage_scan_def stored_def js_has_def)

end
